theory Spec2Isabelle
  imports Complex_Main "HOL-Library.Multiset"
begin

section \<open>Conventions of the embedding\<close>

text \<open>
  The repository holds two servers: \<^verbatim>\<open>mt5_bridge_server.py\<close> (v5.1, classes
  \<^verbatim>\<open>VC\<close>, \<^verbatim>\<open>MT5C\<close>, \<^verbatim>\<open>WM\<close>) and \<^verbatim>\<open>mt5_bridge_server_v6.py\<close> (v6.1, classes
  \<^verbatim>\<open>VolumeCalculator\<close>, \<^verbatim>\<open>MT5Connector\<close>, \<^verbatim>\<open>WebSocketManager\<close>). Both are embedded;
  a definition keeps the name of the class and method it comes from, and the two
  module-level functions that carry the same name in both files get the suffix
  \<open>_v6\<close> for the v6.1 file.

  \<^item> Python floats are idealised as \<^typ>\<open>real\<close>: no rounding, no overflow, no NaN.
  \<^item> Python strings are \<^typ>\<open>string\<close>; \<^verbatim>\<open>str.upper\<close> is the ASCII case mapping.
  \<^item> \<^verbatim>\<open>random.random()\<close> reads the next element of a stream of draws that is
    threaded through every function that draws; the library returns values in
    \<open>[0, 1)\<close>, which theorems assume where they need it.
  \<^item> A call into the MetaTrader5 library that the source wraps in
    \<^verbatim>\<open>try\<close> may return or raise; the handler is part of the model. A call the
    source makes outside every \<^verbatim>\<open>try\<close> (\<^verbatim>\<open>symbol_select\<close>, \<^verbatim>\<open>shutdown\<close>) is
    taken to return, as the library documents (it reports failure by its
    result).
  \<^item> Logging and printing are left out.
\<close>

datatype py_error = KeyError | OverflowError

datatype 'a outcome = Returned 'a | Raised

type_synonym rng = "nat \<Rightarrow> real"

definition random_random :: "rng \<Rightarrow> real \<times> rng" where
  "random_random g = (g 0, \<lambda>n. g (Suc n))"

section \<open>Symbol configuration\<close>

definition upper_char :: "char \<Rightarrow> char" where
  "upper_char c =
     (case map_of (zip ''abcdefghijklmnopqrstuvwxyz'' ''ABCDEFGHIJKLMNOPQRSTUVWXYZ'') c of
        Some u \<Rightarrow> u
      | None \<Rightarrow> c)"

definition upper :: "string \<Rightarrow> string" where
  "upper s = map upper_char s"

record sym_cfg =
  mult :: real
  bv :: real
  dig :: nat

record sym_cfg_v6 = sym_cfg +
  base :: real

text \<open>\<^verbatim>\<open>SYM_CFG\<close> and \<^verbatim>\<open>gcfg\<close> of \<^verbatim>\<open>mt5_bridge_server.py\<close>.\<close>

definition SYM_CFG :: "(string \<times> sym_cfg) list" where
  "SYM_CFG =
    [(''EURUSD'', \<lparr>mult = 100000, bv = 5, dig = 5\<rparr>),
     (''GBPUSD'', \<lparr>mult = 100000, bv = 5, dig = 5\<rparr>),
     (''USDJPY'', \<lparr>mult = 1000, bv = 5, dig = 3\<rparr>),
     (''XAUUSD'', \<lparr>mult = 50, bv = 10, dig = 2\<rparr>),
     (''USTEC'', \<lparr>mult = 2, bv = 10, dig = 2\<rparr>),
     (''US100'', \<lparr>mult = 2, bv = 10, dig = 2\<rparr>),
     (''NAS100'', \<lparr>mult = 2, bv = 10, dig = 2\<rparr>),
     (''BTCUSD'', \<lparr>mult = 1, bv = 5, dig = 2\<rparr>)]"

definition gcfg :: "string \<Rightarrow> sym_cfg" where
  "gcfg s =
     (case map_of SYM_CFG (upper s) of
        Some c \<Rightarrow> c
      | None \<Rightarrow> \<lparr>mult = 1000, bv = 5, dig = 5\<rparr>)"

text \<open>\<^verbatim>\<open>SYM_CFG\<close> and \<^verbatim>\<open>gcfg\<close> of \<^verbatim>\<open>mt5_bridge_server_v6.py\<close>.\<close>

definition SYM_CFG_v6 :: "(string \<times> sym_cfg_v6) list" where
  "SYM_CFG_v6 =
    [(''EURUSD'', \<lparr>mult = 100000, bv = 5, dig = 5, base = 1085 / 1000\<rparr>),
     (''GBPUSD'', \<lparr>mult = 100000, bv = 5, dig = 5, base = 1265 / 1000\<rparr>),
     (''USDJPY'', \<lparr>mult = 1000, bv = 5, dig = 3, base = 1495 / 10\<rparr>),
     (''XAUUSD'', \<lparr>mult = 50, bv = 10, dig = 2, base = 2350\<rparr>),
     (''USTEC'', \<lparr>mult = 2, bv = 10, dig = 2, base = 18500\<rparr>),
     (''US100'', \<lparr>mult = 2, bv = 10, dig = 2, base = 18500\<rparr>),
     (''NAS100'', \<lparr>mult = 2, bv = 10, dig = 2, base = 18500\<rparr>),
     (''BTCUSD'', \<lparr>mult = 1, bv = 5, dig = 2, base = 67000\<rparr>)]"

definition gcfg_v6 :: "string \<Rightarrow> sym_cfg_v6" where
  "gcfg_v6 s =
     (case map_of SYM_CFG_v6 (upper s) of
        Some c \<Rightarrow> c
      | None \<Rightarrow> \<lparr>mult = 1000, bv = 5, dig = 5, base = 1\<rparr>)"

text \<open>Two strings that differ only in the case of their ASCII letters.\<close>

definition case_variant :: "char \<Rightarrow> char \<Rightarrow> bool" where
  "case_variant a b =
     (a = b \<or>
      (a, b) \<in> set (zip ''abcdefghijklmnopqrstuvwxyz'' ''ABCDEFGHIJKLMNOPQRSTUVWXYZ'') \<or>
      (b, a) \<in> set (zip ''abcdefghijklmnopqrstuvwxyz'' ''ABCDEFGHIJKLMNOPQRSTUVWXYZ''))"

definition same_up_to_case :: "string \<Rightarrow> string \<Rightarrow> bool" where
  "same_up_to_case s t = list_all2 case_variant s t"

section \<open>Volume synthesis\<close>

subsection \<open>\<^verbatim>\<open>VolumeCalculator\<close> (v6.1)\<close>

text \<open>
  The three dictionaries of the class; \<open>initialized\<close> is \<^verbatim>\<open>_initialized\<close>.
  \<^verbatim>\<open>self.last_mid[symbol]\<close> raises \<^verbatim>\<open>KeyError\<close> on a missing key, so \<open>calc\<close>
  returns an error or the 4-tuple.
\<close>

record VolumeCalculator =
  last_bid :: "string \<rightharpoonup> real"
  last_mid :: "string \<rightharpoonup> real"
  initialized :: "string \<rightharpoonup> bool"

definition VolumeCalculator_init :: VolumeCalculator where
  "VolumeCalculator_init =
     \<lparr>last_bid = Map.empty, last_mid = Map.empty, initialized = Map.empty\<rparr>"

definition coin_flip :: "rng \<Rightarrow> string \<times> rng" where
  "coin_flip g = (let (r, g') = random_random g in (if r > 5 / 10 then ''buy'' else ''sell'', g'))"

definition VolumeCalculator_calc ::
  "string \<Rightarrow> real \<Rightarrow> real \<Rightarrow> VolumeCalculator \<Rightarrow> rng \<Rightarrow>
   (py_error + real \<times> real \<times> real \<times> string) \<times> VolumeCalculator \<times> rng" where
  "VolumeCalculator_calc symbol bid ask self g =
     (let config = gcfg_v6 symbol;
          mid = (bid + ask) / 2
      in if symbol \<notin> dom (initialized self) then
           (let self' = self\<lparr>last_bid := (last_bid self)(symbol \<mapsto> bid),
                              last_mid := (last_mid self)(symbol \<mapsto> mid),
                              initialized := (initialized self)(symbol \<mapsto> True)\<rparr>;
                (r, g1) = random_random g;
                vol = bv config * (8 / 10 + r * (4 / 10));
                (side, g2) = coin_flip g1
            in (Inr (mid, vol, 0, side), self', g2))
         else
           (case last_mid self symbol of
              None \<Rightarrow> (Inl KeyError, self, g)
            | Some lm \<Rightarrow>
           (case last_bid self symbol of
              None \<Rightarrow> (Inl KeyError, self, g)
            | Some lb \<Rightarrow>
              (let price_change = mid - lm;
                   bid_change = bid - lb;
                   vol = \<bar>price_change\<bar> * mult config + bv config;
                   (r1, g1) = random_random g;
                   vol = vol * (7 / 10 + r1 * (6 / 10));
                   vol = max vol (bv config);
                   (r2, g2) = random_random g1;
                   (vol, g3) =
                     (if r2 > 97 / 100
                      then (let (r3, g3) = random_random g2 in (vol * (3 + r3 * 5), g3))
                      else (vol, g2));
                   (side, g4) =
                     (if bid_change > 0 then (''buy'', g3)
                      else if bid_change < 0 then (''sell'', g3)
                      else coin_flip g3);
                   self' = self\<lparr>last_bid := (last_bid self)(symbol \<mapsto> bid),
                                 last_mid := (last_mid self)(symbol \<mapsto> mid)\<rparr>
               in (Inr (mid, vol, price_change, side), self', g4)))))"

text \<open>
  \<^verbatim>\<open>reset(symbol=None)\<close>: \<^verbatim>\<open>if symbol:\<close> is false for \<^verbatim>\<open>None\<close> and for the
  empty string, and then all state is cleared.
\<close>

definition VolumeCalculator_reset :: "string option \<Rightarrow> VolumeCalculator \<Rightarrow> VolumeCalculator" where
  "VolumeCalculator_reset symbol self =
     (case symbol of
        Some s \<Rightarrow>
          (if s \<noteq> [] then
             self\<lparr>last_bid := (last_bid self)(s := None),
                  last_mid := (last_mid self)(s := None),
                  initialized := (initialized self)(s := None)\<rparr>
           else VolumeCalculator_init)
      | None \<Rightarrow> VolumeCalculator_init)"

text \<open>
  The states a \<^verbatim>\<open>VolumeCalculator\<close> object can be in: the class has no other
  method, and nothing in the repository writes its dictionaries from outside.
\<close>

inductive vc_reachable :: "VolumeCalculator \<Rightarrow> bool" where
  vc_new: "vc_reachable VolumeCalculator_init"
| vc_calc: "vc_reachable self \<Longrightarrow> VolumeCalculator_calc symbol bid ask self g = (res, self', g')
            \<Longrightarrow> vc_reachable self'"
| vc_reset: "vc_reachable self \<Longrightarrow> vc_reachable (VolumeCalculator_reset symbol self)"

text \<open>The consistency of the three dictionaries that \<open>calc\<close> relies on: a symbol
  marked as initialized has a stored bid and a stored mid.\<close>

definition vc_inv :: "VolumeCalculator \<Rightarrow> bool" where
  "vc_inv v =
     (dom (initialized v) \<subseteq> dom (last_mid v) \<and> dom (initialized v) \<subseteq> dom (last_bid v))"

subsection \<open>\<^verbatim>\<open>VC\<close> (v5.1)\<close>

record VC =
  lb :: "string \<rightharpoonup> real"
  lm :: "string \<rightharpoonup> real"

definition VC_init :: VC where
  "VC_init = \<lparr>lb = Map.empty, lm = Map.empty\<rparr>"

definition VC_calc ::
  "string \<Rightarrow> real \<Rightarrow> real \<Rightarrow> VC \<Rightarrow> rng \<Rightarrow> (real \<times> real \<times> real \<times> string) \<times> VC \<times> rng" where
  "VC_calc symb bid ask self g =
     (let c = gcfg symb;
          mid = (bid + ask) / 2;
          lb0 = (case lb self symb of Some x \<Rightarrow> x | None \<Rightarrow> bid);
          lm0 = (case lm self symb of Some x \<Rightarrow> x | None \<Rightarrow> mid);
          pc = mid - lm0;
          bc = bid - lb0;
          vol = \<bar>pc\<bar> * mult c + bv c;
          (r1, g1) = random_random g;
          vol = vol * (7 / 10 + r1 * (6 / 10));
          vol = max vol (bv c);
          (side, g2) =
            (if bc > 0 then (''buy'', g1)
             else if bc < 0 then (''sell'', g1)
             else coin_flip g1);
          self' = self\<lparr>lb := (lb self)(symb \<mapsto> bid), lm := (lm self)(symb \<mapsto> mid)\<rparr>
      in ((mid, vol, pc, side), self', g2))"

definition VC_reset :: "string option \<Rightarrow> VC \<Rightarrow> VC" where
  "VC_reset symb self =
     (case symb of
        Some s \<Rightarrow>
          (if s \<noteq> [] then self\<lparr>lb := (lb self)(s := None), lm := (lm self)(s := None)\<rparr>
           else VC_init)
      | None \<Rightarrow> VC_init)"

section \<open>Ticks, the MetaTrader5 library and time\<close>

text \<open>
  Python's \<^verbatim>\<open>round(x, n)\<close> on the exact value: to the nearest multiple of
  \<open>10\<^sup>-\<^sup>n\<close>, ties to the even one.
\<close>

definition py_round :: "real \<Rightarrow> nat \<Rightarrow> real" where
  "py_round x n =
     (let y = x * 10 ^ n;
          f = \<lfloor>y\<rfloor>;
          d = y - of_int f
      in (if d < 1 / 2 then of_int f
          else if d > 1 / 2 then of_int (f + 1)
          else if even f then of_int f else of_int (f + 1)) / 10 ^ n)"

text \<open>
  The dictionary that \<^verbatim>\<open>get_history\<close> builds for a tick in v6.1; v5.1 adds
  \<^verbatim>\<open>price_change\<close> and \<^verbatim>\<open>spread\<close>, which gives the fields of its dataclass
  \<^verbatim>\<open>TD\<close> as well. Field names carry \<open>t_\<close>.
\<close>

record tick =
  t_symbol :: string
  t_price :: real
  t_bid :: real
  t_ask :: real
  t_volume_synthetic :: real
  t_side :: string
  t_timestamp :: int
  t_source :: string

record TD = tick +
  t_price_change :: real
  t_spread :: real

text \<open>
  An element of the array the library returns. Each field is what the source's
  conversion yields, \<open>None\<close> when the access or the conversion raises:
  \<open>f_bid\<close> is \<^verbatim>\<open>float(t['bid'])\<close>, \<open>f_time\<close> is \<^verbatim>\<open>int(t['time'])\<close>,
  \<open>p1\<close> is \<^verbatim>\<open>float(t[1])\<close>, and so on.
\<close>

record raw_tick =
  f_bid :: "real option"
  f_ask :: "real option"
  f_time :: "int option"
  f_time_msc :: "int option"
  p0 :: "int option"
  p1 :: "real option"
  p2 :: "real option"

text \<open>
  What the MetaTrader5 module answers during one operation. \<open>initialize_login\<close>
  is \<^verbatim>\<open>mt5.initialize(**init_params)\<close>, \<open>initialize_plain\<close> is
  \<^verbatim>\<open>mt5.initialize()\<close>; \<open>last_error\<close> is the call that \<open>init\<close> makes between
  the two; \<open>account_info\<close> tells whether an account came back (and raises when
  the call or the logging of the account raises);
  \<open>found_path\<close> is the result of \<^verbatim>\<open>find_mt5_path()\<close>; \<open>utc_now\<close> is
  \<^verbatim>\<open>datetime.now(timezone.utc)\<close> in POSIX seconds.
\<close>

record mt5_lib =
  MT5_AVAILABLE :: bool
  initialize_login :: "bool outcome"
  initialize_plain :: "bool outcome"
  last_error :: "unit outcome"
  account_info :: "bool outcome"
  found_path :: "string option"
  symbol_select :: "string \<Rightarrow> bool"
  copy_ticks_range :: "string \<Rightarrow> real \<Rightarrow> real \<Rightarrow> raw_tick list option outcome"
  copy_ticks_from :: "string \<Rightarrow> real \<Rightarrow> nat \<Rightarrow> raw_tick list option outcome"
  utc_now :: real

text \<open>
  \<^verbatim>\<open>timedelta(hours=h)\<close> in seconds: \<^verbatim>\<open>OverflowError\<close> beyond 999999999 days.
  \<^verbatim>\<open>utc_to - delta\<close>: \<^verbatim>\<open>OverflowError\<close> when the result leaves the years 1 to 9999
  (POSIX seconds \<open>-62135596800\<close> up to \<open>253402300800\<close>).
\<close>

definition timedelta_hours :: "real \<Rightarrow> py_error + real" where
  "timedelta_hours h =
     (let s = h * 3600
      in if s < - (86400 * 999999999) \<or> s \<ge> 86400 * 1000000000 then Inl OverflowError
         else Inr s)"

definition datetime_sub :: "real \<Rightarrow> real \<Rightarrow> py_error + real" where
  "datetime_sub t d =
     (let r = t - d
      in if r < - 62135596800 \<or> r \<ge> 253402300800 then Inl OverflowError else Inr r)"

definition window_start :: "real \<Rightarrow> real \<Rightarrow> py_error + real" where
  "window_start utc_to hours =
     (case timedelta_hours hours of
        Inl e \<Rightarrow> Inl e
      | Inr d \<Rightarrow> datetime_sub utc_to d)"

text \<open>
  The two queries inside the \<^verbatim>\<open>try\<close> of \<^verbatim>\<open>get_history\<close>, the same in both
  files: the range query, then \<^verbatim>\<open>copy_ticks_from\<close> when it gave \<^verbatim>\<open>None\<close> or an
  empty array. \<open>Returned None\<close> stands for the \<^verbatim>\<open>return []\<close> on no ticks.
\<close>

definition fetch_raw :: "mt5_lib \<Rightarrow> string \<Rightarrow> real \<Rightarrow> real \<Rightarrow> raw_tick list option outcome" where
  "fetch_raw L s utc_from utc_to =
     (case copy_ticks_range L s utc_from utc_to of
        Raised \<Rightarrow> Raised
      | Returned raw \<Rightarrow>
          (case (if raw = None \<or> raw = Some [] then copy_ticks_from L s utc_from 500000
                 else Returned raw) of
             Raised \<Rightarrow> Raised
           | Returned raw' \<Rightarrow>
               (if raw' = None \<or> raw' = Some [] then Returned None else Returned raw')))"

section \<open>\<^verbatim>\<open>MT5Connector\<close> (v6.1)\<close>

text \<open>\<open>on_tick\<close> tells whether the callback is set; \<open>should_reconnect\<close> is
  \<^verbatim>\<open>_should_reconnect\<close>.\<close>

record MT5Connector =
  connected :: bool
  vc :: VolumeCalculator
  on_tick :: bool
  tick_count :: nat
  should_reconnect :: bool
  mt5_path :: "string option"

definition MT5Connector_new :: MT5Connector where
  "MT5Connector_new =
     \<lparr>connected = False, vc = VolumeCalculator_init, on_tick = False, tick_count = 0,
      should_reconnect = True, mt5_path = None\<rparr>"

text \<open>
  \<^verbatim>\<open>init\<close>: everything after \<^verbatim>\<open>find_mt5_path()\<close> runs inside
  \<^verbatim>\<open>try ... except Exception: return False\<close>. \<^verbatim>\<open>self.connected = True\<close> is
  set before \<^verbatim>\<open>account_info()\<close> is called and stays set when that call raises.
\<close>

definition MT5Connector_init :: "mt5_lib \<Rightarrow> MT5Connector \<Rightarrow> bool \<times> MT5Connector" where
  "MT5Connector_init L self =
     (if \<not> MT5_AVAILABLE L then (False, self)
      else
        (let self1 = self\<lparr>mt5_path := found_path L\<rparr>
         in case initialize_login L of
              Raised \<Rightarrow> (False, self1)
            | Returned ok1 \<Rightarrow>
                (case (if ok1 then Returned True
                       else (case last_error L of
                               Raised \<Rightarrow> Raised
                             | Returned u \<Rightarrow> initialize_plain L)) of
                   Raised \<Rightarrow> (False, self1)
                 | Returned ok2 \<Rightarrow>
                     (if \<not> ok2 then (False, self1)
                      else
                        (let self2 = self1\<lparr>connected := True\<rparr>
                         in case account_info L of
                              Raised \<Rightarrow> (False, self2)
                            | Returned a \<Rightarrow> (True, self2))))))"

definition MT5Connector_shutdown :: "MT5Connector \<Rightarrow> MT5Connector" where
  "MT5Connector_shutdown self = (if connected self then self\<lparr>connected := False\<rparr> else self)"

text \<open>
  One record of the history loop: the body of \<^verbatim>\<open>for t in raw\<close> is one
  \<^verbatim>\<open>try\<close> whose handler is \<^verbatim>\<open>continue\<close>. \<open>parse_named\<close> is its first four
  statements.
\<close>

definition parse_named :: "raw_tick \<Rightarrow> (real \<times> real \<times> int \<times> int) option" where
  "parse_named t =
     (case f_bid t of None \<Rightarrow> None | Some bid \<Rightarrow>
      (case f_ask t of None \<Rightarrow> None | Some ask \<Rightarrow>
       (case f_time t of None \<Rightarrow> None | Some ts \<Rightarrow>
          Some (bid, ask, ts, (case f_time_msc t of Some tms \<Rightarrow> tms | None \<Rightarrow> ts * 1000)))))"

fun history_loop ::
  "string \<Rightarrow> raw_tick list \<Rightarrow> VolumeCalculator \<Rightarrow> tick list \<Rightarrow> rng \<Rightarrow>
   tick list \<times> VolumeCalculator \<times> rng" where
  "history_loop s [] v result g = (result, v, g)"
| "history_loop s (t # raw) v result g =
     (case parse_named t of
        None \<Rightarrow> history_loop s raw v result g
      | Some (bid, ask, ts, tms) \<Rightarrow>
          (if bid > 0 \<and> ask > 0 then
             (case VolumeCalculator_calc s bid ask v g of
                (Inl e, v', g') \<Rightarrow> history_loop s raw v' result g'
              | (Inr (mid, vol, pc, side), v', g') \<Rightarrow>
                  history_loop s raw v'
                    (result @
                     [\<lparr>t_symbol = s,
                       t_price = py_round mid (dig (gcfg_v6 s)),
                       t_bid = py_round bid (dig (gcfg_v6 s)),
                       t_ask = py_round ask (dig (gcfg_v6 s)),
                       t_volume_synthetic = py_round vol 2,
                       t_side = side,
                       t_timestamp = tms,
                       t_source = ''mt5_history''\<rparr>]) g')
           else history_loop s raw v result g))"

text \<open>
  \<^verbatim>\<open>get_history\<close>: the window is computed before the \<^verbatim>\<open>try\<close>, so an error of
  the date arithmetic reaches the caller; everything after it is inside
  \<^verbatim>\<open>try ... except Exception: return []\<close>. The synthesizer of the loop is a new
  \<^verbatim>\<open>VolumeCalculator()\<close>; \<^verbatim>\<open>self.vc\<close> is not read.
\<close>

definition MT5Connector_get_history ::
  "mt5_lib \<Rightarrow> string \<Rightarrow> real \<Rightarrow> MT5Connector \<Rightarrow> rng \<Rightarrow>
   (py_error + tick list) \<times> MT5Connector \<times> rng" where
  "MT5Connector_get_history L s hours self g =
     (if \<not> connected self \<or> \<not> MT5_AVAILABLE L then (Inr [], self, g)
      else if \<not> symbol_select L s then (Inr [], self, g)
      else
        (case window_start (utc_now L) hours of
           Inl e \<Rightarrow> (Inl e, self, g)
         | Inr utc_from \<Rightarrow>
             (case fetch_raw L s utc_from (utc_now L) of
                Raised \<Rightarrow> (Inr [], self, g)
              | Returned None \<Rightarrow> (Inr [], self, g)
              | Returned (Some raw) \<Rightarrow>
                  (let (result, v, g') = history_loop s raw VolumeCalculator_init [] g
                   in (Inr result, self, g')))))"

section \<open>\<^verbatim>\<open>MT5C\<close> (v5.1)\<close>

record MT5C =
  c_connected :: bool
  c_vc :: VC
  c_on_tick :: bool
  tc :: nat

definition MT5C_new :: MT5C where
  "MT5C_new = \<lparr>c_connected = False, c_vc = VC_init, c_on_tick = False, tc = 0\<rparr>"

definition MT5C_init :: "mt5_lib \<Rightarrow> MT5C \<Rightarrow> bool \<times> MT5C" where
  "MT5C_init L self =
     (if \<not> MT5_AVAILABLE L then (False, self)
      else
        (case initialize_plain L of
           Raised \<Rightarrow> (False, self)
         | Returned ok \<Rightarrow>
             (if \<not> ok then (False, self)
              else
                (let self1 = self\<lparr>c_connected := True\<rparr>
                 in case account_info L of
                      Raised \<Rightarrow> (False, self1)
                    | Returned a \<Rightarrow> (True, self1)))))"

definition MT5C_shutdown :: "MT5C \<Rightarrow> MT5C" where
  "MT5C_shutdown self = (if c_connected self then self\<lparr>c_connected := False\<rparr> else self)"

text \<open>
  The v5.1 loop reads a record by field names and, when that raises, by
  position; when both raise the record is skipped.
\<close>

definition parse_positional :: "raw_tick \<Rightarrow> (real \<times> real \<times> int \<times> int) option" where
  "parse_positional t =
     (case p1 t of None \<Rightarrow> None | Some bid \<Rightarrow>
      (case p2 t of None \<Rightarrow> None | Some ask \<Rightarrow>
       (case p0 t of None \<Rightarrow> None | Some ts \<Rightarrow> Some (bid, ask, ts, ts * 1000))))"

definition parse_v5 :: "raw_tick \<Rightarrow> (real \<times> real \<times> int \<times> int) option" where
  "parse_v5 t = (case parse_named t of Some r \<Rightarrow> Some r | None \<Rightarrow> parse_positional t)"

fun history_loop_v5 ::
  "string \<Rightarrow> raw_tick list \<Rightarrow> VC \<Rightarrow> TD list \<Rightarrow> rng \<Rightarrow> TD list \<times> VC \<times> rng" where
  "history_loop_v5 s [] v result g = (result, v, g)"
| "history_loop_v5 s (t # raw) v result g =
     (case parse_v5 t of
        None \<Rightarrow> history_loop_v5 s raw v result g
      | Some (bid, ask, ts, tms) \<Rightarrow>
          (if bid \<le> 0 \<or> ask \<le> 0 then history_loop_v5 s raw v result g
           else
             (case VC_calc s bid ask v g of
                ((mid, vol, pc, side), v', g') \<Rightarrow>
                  history_loop_v5 s raw v'
                    (result @
                     [\<lparr>t_symbol = s,
                       t_price = py_round mid (dig (gcfg s)),
                       t_bid = py_round bid (dig (gcfg s)),
                       t_ask = py_round ask (dig (gcfg s)),
                       t_volume_synthetic = py_round vol 2,
                       t_side = side,
                       t_timestamp = tms,
                       t_source = ''mt5_history'',
                       t_price_change = py_round pc (dig (gcfg s)),
                       t_spread = py_round (ask - bid) (dig (gcfg s))\<rparr>]) g')))"

definition MT5C_get_history ::
  "mt5_lib \<Rightarrow> string \<Rightarrow> real \<Rightarrow> MT5C \<Rightarrow> rng \<Rightarrow> (py_error + TD list) \<times> MT5C \<times> rng" where
  "MT5C_get_history L s hours self g =
     (if \<not> c_connected self \<or> \<not> MT5_AVAILABLE L then (Inr [], self, g)
      else if \<not> symbol_select L s then (Inr [], self, g)
      else
        (case window_start (utc_now L) hours of
           Inl e \<Rightarrow> (Inl e, self, g)
         | Inr utc_from \<Rightarrow>
             (case fetch_raw L s utc_from (utc_now L) of
                Raised \<Rightarrow> (Inr [], self, g)
              | Returned None \<Rightarrow> (Inr [], self, g)
              | Returned (Some raw) \<Rightarrow>
                  (let (result, v, g') = history_loop_v5 s raw VC_init [] g
                   in (Inr result, self, g')))))"

section \<open>\<^verbatim>\<open>WebSocketManager\<close> (v6.1)\<close>

text \<open>
  The registry is the Python list \<^verbatim>\<open>self.connections\<close>. \<open>mt5_task\<close> holds, for
  the task created by \<^verbatim>\<open>asyncio.create_task(self.mt5.listen(symbol))\<close>, the symbol
  it listens to and whether it was cancelled. \<^verbatim>\<open>sim_task\<close> is left out.

  The transport is a pair of functions on a state \<open>'w\<close> of the outside world:
  \<open>accept ws w\<close> and \<open>send_json ws msg w\<close> give \<open>True\<close> when the call returns and
  \<open>False\<close> when it raises, with the next state of the world.
\<close>

record 'h WebSocketManager =
  connections :: "'h list"
  mgr_vc :: VolumeCalculator
  mt5_task :: "(string \<times> bool) option"
  mt5 :: "MT5Connector option"
  mode :: string
  symbol :: string

definition WebSocketManager_new :: "'h WebSocketManager" where
  "WebSocketManager_new =
     \<lparr>connections = [], mgr_vc = VolumeCalculator_init, mt5_task = None, mt5 = None,
      mode = ''simulation'', symbol = ''EURUSD''\<rparr>"

datatype 'm message = Connected string string bool bool | Tick 'm

text \<open>
  \<^verbatim>\<open>connect\<close>: accept, append, then send the acknowledgment. The result tells
  whether the coroutine returned (\<open>True\<close>) or raised (\<open>False\<close>).
\<close>

definition WebSocketManager_connect ::
  "('h \<Rightarrow> 'w \<Rightarrow> bool \<times> 'w) \<Rightarrow> ('h \<Rightarrow> 'm message \<Rightarrow> 'w \<Rightarrow> bool \<times> 'w) \<Rightarrow> mt5_lib \<Rightarrow>
   'h \<Rightarrow> 'h WebSocketManager \<Rightarrow> 'w \<Rightarrow> bool \<times> 'h WebSocketManager \<times> 'w" where
  "WebSocketManager_connect accept send_json L ws self w =
     (let (accepted, w1) = accept ws w
      in if \<not> accepted then (False, self, w1)
         else
           (let self' = self\<lparr>connections := connections self @ [ws]\<rparr>;
                (sent, w2) =
                  send_json ws
                    (Connected (mode self') (symbol self') (MT5_AVAILABLE L)
                       (case mt5 self' of Some c \<Rightarrow> connected c | None \<Rightarrow> False)) w1
            in (sent, self', w2)))"

definition WebSocketManager_disconnect :: "'h \<Rightarrow> 'h WebSocketManager \<Rightarrow> 'h WebSocketManager" where
  "WebSocketManager_disconnect ws self =
     (if ws \<in> set (connections self) then self\<lparr>connections := remove1 ws (connections self)\<rparr>
      else self)"






definition WebSocketManager_start_mt5 ::
  "mt5_lib \<Rightarrow> string \<Rightarrow> 'h WebSocketManager \<Rightarrow> bool \<times> 'h WebSocketManager" where
  "WebSocketManager_start_mt5 L s self =
     (let self1 = self\<lparr>symbol := upper s\<rparr>;
          (ok, c) = MT5Connector_init L (MT5Connector_new\<lparr>on_tick := True\<rparr>)
      in if ok then (True, self1\<lparr>mt5 := Some c, mode := ''mt5'', mt5_task := Some (s, False)\<rparr>)
         else (False, self1\<lparr>mt5 := Some c, mode := ''simulation''\<rparr>))"

text \<open>
  \<^verbatim>\<open>stop_mt5\<close> shuts the connector down and drops it (\<^verbatim>\<open>self.mt5 = None\<close>), so
  the connector's own state is gone from the manager; the task is cancelled
  and dropped as well.
\<close>

definition WebSocketManager_stop_mt5 :: "'h WebSocketManager \<Rightarrow> 'h WebSocketManager" where
  "WebSocketManager_stop_mt5 self =
     self\<lparr>mt5 := None, mt5_task := None, mode := ''simulation''\<rparr>"

text \<open>The answer of the route \<^verbatim>\<open>/switch_symbol/{symbol}\<close> (key \<^verbatim>\<open>success\<close> in v6.1,
  \<^verbatim>\<open>ok\<close> in v5.1).\<close>

record switch_reply =
  success :: bool
  r_mode :: string
  r_symbol :: string

definition switch_symbol ::
  "mt5_lib \<Rightarrow> string \<Rightarrow> 'h WebSocketManager \<Rightarrow> switch_reply \<times> 'h WebSocketManager" where
  "switch_symbol L s manager =
     (let m1 = manager\<lparr>symbol := upper s,
                        mgr_vc := VolumeCalculator_reset (Some (upper s)) (mgr_vc manager)\<rparr>
      in if mode m1 = ''mt5'' then
           (let m2 = WebSocketManager_stop_mt5 m1;
                (ok, m3) = WebSocketManager_start_mt5 L (symbol m2) m2
            in (\<lparr>success = ok, r_mode = mode m3, r_symbol = symbol m3\<rparr>, m3))
         else (\<lparr>success = True, r_mode = ''simulation'', r_symbol = symbol m1\<rparr>, m1))"

text \<open>
  The states of the manager: it is created once, \<open>mode\<close> and \<open>symbol\<close> are
  written by \<^verbatim>\<open>start_mt5\<close>, \<^verbatim>\<open>stop_mt5\<close> and \<^verbatim>\<open>switch_symbol\<close> only, and the
  other methods write the registry and the synthesizer.
\<close>

inductive manager_reachable :: "'h WebSocketManager \<Rightarrow> bool" where
  mr_new: "manager_reachable WebSocketManager_new"
| mr_start: "manager_reachable m \<Longrightarrow> manager_reachable (snd (WebSocketManager_start_mt5 L s m))"
| mr_stop: "manager_reachable m \<Longrightarrow> manager_reachable (WebSocketManager_stop_mt5 m)"
| mr_switch: "manager_reachable m \<Longrightarrow> manager_reachable (snd (switch_symbol L s m))"
| mr_other: "manager_reachable m \<Longrightarrow> manager_reachable (m\<lparr>connections := cs, mgr_vc := v\<rparr>)"

section \<open>\<^verbatim>\<open>WM\<close> (v5.1)\<close>

record 'h WM =
  conns :: "'h list"
  wm_vc :: VC
  wm_mt5_task :: "(string \<times> bool) option"
  wm_mt5 :: "MT5C option"
  wm_mode :: string
  wm_sym :: string

definition WM_new :: "'h WM" where
  "WM_new =
     \<lparr>conns = [], wm_vc = VC_init, wm_mt5_task = None, wm_mt5 = None,
      wm_mode = ''simulation'', wm_sym = ''EURUSD''\<rparr>"

definition WM_conn ::
  "('h \<Rightarrow> 'w \<Rightarrow> bool \<times> 'w) \<Rightarrow> 'h \<Rightarrow> 'h WM \<Rightarrow> 'w \<Rightarrow> bool \<times> 'h WM \<times> 'w" where
  "WM_conn accept ws self w =
     (let (accepted, w1) = accept ws w
      in if \<not> accepted then (False, self, w1)
         else (True, self\<lparr>conns := conns self @ [ws]\<rparr>, w1))"

definition WM_disc :: "'h \<Rightarrow> 'h WM \<Rightarrow> 'h WM" where
  "WM_disc ws self =
     (if ws \<in> set (conns self) then self\<lparr>conns := remove1 ws (conns self)\<rparr> else self)"


definition WM_start_mt5 :: "mt5_lib \<Rightarrow> string \<Rightarrow> 'h WM \<Rightarrow> bool \<times> 'h WM" where
  "WM_start_mt5 L s self =
     (let self1 = self\<lparr>wm_sym := upper s\<rparr>;
          (ok, c) = MT5C_init L (MT5C_new\<lparr>c_on_tick := True\<rparr>)
      in if ok then (True, self1\<lparr>wm_mt5 := Some c, wm_mode := ''mt5'', wm_mt5_task := Some (s, False)\<rparr>)
         else (False, self1\<lparr>wm_mt5 := Some c, wm_mode := ''simulation''\<rparr>))"

text \<open>v5.1 cancels the task and keeps it in \<^verbatim>\<open>self.mt5_task\<close>.\<close>

definition WM_stop_mt5 :: "'h WM \<Rightarrow> 'h WM" where
  "WM_stop_mt5 self =
     self\<lparr>wm_mt5 := None,
          wm_mt5_task := (case wm_mt5_task self of Some (s, c) \<Rightarrow> Some (s, True) | None \<Rightarrow> None),
          wm_mode := ''simulation''\<rparr>"

definition switch_sym :: "mt5_lib \<Rightarrow> string \<Rightarrow> 'h WM \<Rightarrow> switch_reply \<times> 'h WM" where
  "switch_sym L s mgr =
     (let m1 = mgr\<lparr>wm_sym := upper s, wm_vc := VC_reset (Some (upper s)) (wm_vc mgr)\<rparr>
      in if wm_mode m1 = ''mt5'' then
           (let m2 = WM_stop_mt5 m1;
                (ok, m3) = WM_start_mt5 L (wm_sym m2) m2
            in (\<lparr>success = ok, r_mode = wm_mode m3, r_symbol = wm_sym m3\<rparr>, m3))
         else (\<lparr>success = True, r_mode = ''simulation'', r_symbol = wm_sym m1\<rparr>, m1))"

inductive wm_reachable :: "'h WM \<Rightarrow> bool" where
  wr_new: "wm_reachable WM_new"
| wr_start: "wm_reachable m \<Longrightarrow> wm_reachable (snd (WM_start_mt5 L s m))"
| wr_stop: "wm_reachable m \<Longrightarrow> wm_reachable (WM_stop_mt5 m)"
| wr_switch: "wm_reachable m \<Longrightarrow> wm_reachable (snd (switch_sym L s m))"
| wr_other: "wm_reachable m \<Longrightarrow> wm_reachable (m\<lparr>conns := cs, wm_vc := v\<rparr>)"

text \<open>
  One round of \<^verbatim>\<open>WM.simulate\<close> in simulation mode, up to the tick it
  broadcasts: \<open>n\<close> is the counter after \<^verbatim>\<open>n += 1\<close>, \<open>pr\<close> the local price table,
  \<open>now_ms\<close> the clock reading. \<open>simulate_quote\<close> is the price walk that gives
  the spread, the bid and the ask; the burst of v5.1 is in the round, after
  \<^verbatim>\<open>calc\<close>.
\<close>

definition simulate_quote ::
  "nat \<Rightarrow> (string \<rightharpoonup> real) \<Rightarrow> string \<Rightarrow> rng \<Rightarrow> (real \<times> real \<times> real) \<times> (string \<rightharpoonup> real) \<times> rng" where
  "simulate_quote n pr s g =
     (let bp = (case pr s of Some x \<Rightarrow> x | None \<Rightarrow> 1);
          nf = bp * (5 / 100000);
          (r0, g0) = random_random g;
          bp = bp + sin (real n / 300) * nf * (3 / 10) + (r0 - 5 / 10) * nf;
          sp = bp * (8 / 100000)
      in ((sp, bp - sp / 2, bp + sp / 2), pr(s \<mapsto> bp), g0))"

definition WM_simulate_round ::
  "nat \<Rightarrow> int \<Rightarrow> (string \<rightharpoonup> real) \<Rightarrow> 'h WM \<Rightarrow> rng \<Rightarrow> TD \<times> (string \<rightharpoonup> real) \<times> 'h WM \<times> rng" where
  "WM_simulate_round n now_ms pr self g =
     (let s = wm_sym self;
          ((sp, bid, ask), pr', g0) = simulate_quote n pr s g;
          ((mid, vol, pc, side), v', g1) = VC_calc s bid ask (wm_vc self) g0;
          (r1, g2) = random_random g1;
          (vol, g3) =
            (if r1 > 95 / 100
             then (let (r2, g3) = random_random g2 in (vol * (3 + r2 * 5), g3))
             else (vol, g2));
          d = dig (gcfg s)
      in (\<lparr>t_symbol = s, t_price = py_round mid d, t_bid = py_round bid d,
           t_ask = py_round ask d, t_volume_synthetic = py_round vol 2, t_side = side,
           t_timestamp = now_ms, t_source = ''simulation'',
           t_price_change = py_round pc d, t_spread = py_round sp d\<rparr>,
          pr', self\<lparr>wm_vc := v'\<rparr>, g3))"

section \<open>Valid history records\<close>

text \<open>
  The records the specification calls valid: all fields parse and bid and ask
  are positive. v5.1 parses by position when parsing by name fails. \<open>stamp_of\<close>
  is the millisecond timestamp a parsed record carries.
\<close>

definition valid_record :: "raw_tick \<Rightarrow> bool" where
  "valid_record t =
     (case parse_named t of None \<Rightarrow> False | Some (bid, ask, ts, tms) \<Rightarrow> bid > 0 \<and> ask > 0)"

definition valid_record_v5 :: "raw_tick \<Rightarrow> bool" where
  "valid_record_v5 t =
     (case parse_v5 t of None \<Rightarrow> False | Some (bid, ask, ts, tms) \<Rightarrow> bid > 0 \<and> ask > 0)"

definition stamp_of :: "raw_tick \<Rightarrow> int" where
  "stamp_of t = (case parse_named t of None \<Rightarrow> 0 | Some (bid, ask, ts, tms) \<Rightarrow> tms)"

definition stamp_of_v5 :: "raw_tick \<Rightarrow> int" where
  "stamp_of_v5 t = (case parse_v5 t of None \<Rightarrow> 0 | Some (bid, ask, ts, tms) \<Rightarrow> tms)"

section \<open>The conversion as the specification describes it\<close>

text \<open>
  The specification describes the conversion of a batch in these words: the
  valid records are replayed, in arrival order, through a synthesizer that
  starts fresh, and each of them gives one tick. \<open>quote_of\<close> is what a valid
  record carries (bid, ask and the timestamp in milliseconds); \<open>spec_replay\<close>
  feeds a list of such quotes to a synthesizer, one \<open>calc\<close> for each, and
  collects the ticks; \<open>spec_convert\<close> is the conversion described. They are
  written from the specification, to be compared with \<open>history_loop\<close> and
  \<open>history_loop_v5\<close>, which are written from the code.
\<close>

definition quote_of :: "raw_tick \<Rightarrow> real \<times> real \<times> int" where
  "quote_of t = (case parse_named t of None \<Rightarrow> (0, 0, 0) | Some (bid, ask, ts, tms) \<Rightarrow> (bid, ask, tms))"

definition quote_of_v5 :: "raw_tick \<Rightarrow> real \<times> real \<times> int" where
  "quote_of_v5 t = (case parse_v5 t of None \<Rightarrow> (0, 0, 0) | Some (bid, ask, ts, tms) \<Rightarrow> (bid, ask, tms))"

fun spec_replay ::
  "string \<Rightarrow> (real \<times> real \<times> int) list \<Rightarrow> VolumeCalculator \<Rightarrow> rng \<Rightarrow> tick list" where
  "spec_replay s [] v g = []"
| "spec_replay s ((bid, ask, tms) # qs) v g =
     (case VolumeCalculator_calc s bid ask v g of
        (Inl e, v', g') \<Rightarrow> spec_replay s qs v' g'
      | (Inr (mid, vol, pc, side), v', g') \<Rightarrow>
          \<lparr>t_symbol = s,
            t_price = py_round mid (dig (gcfg_v6 s)),
            t_bid = py_round bid (dig (gcfg_v6 s)),
            t_ask = py_round ask (dig (gcfg_v6 s)),
            t_volume_synthetic = py_round vol 2,
            t_side = side,
            t_timestamp = tms,
            t_source = ''mt5_history''\<rparr> # spec_replay s qs v' g')"

fun spec_replay_v5 :: "string \<Rightarrow> (real \<times> real \<times> int) list \<Rightarrow> VC \<Rightarrow> rng \<Rightarrow> TD list" where
  "spec_replay_v5 s [] v g = []"
| "spec_replay_v5 s ((bid, ask, tms) # qs) v g =
     (case VC_calc s bid ask v g of
        ((mid, vol, pc, side), v', g') \<Rightarrow>
          \<lparr>t_symbol = s,
            t_price = py_round mid (dig (gcfg s)),
            t_bid = py_round bid (dig (gcfg s)),
            t_ask = py_round ask (dig (gcfg s)),
            t_volume_synthetic = py_round vol 2,
            t_side = side,
            t_timestamp = tms,
            t_source = ''mt5_history'',
            t_price_change = py_round pc (dig (gcfg s)),
            t_spread = py_round (ask - bid) (dig (gcfg s))\<rparr> # spec_replay_v5 s qs v' g')"

definition spec_convert :: "string \<Rightarrow> raw_tick list \<Rightarrow> rng \<Rightarrow> tick list" where
  "spec_convert s raw g = spec_replay s (map quote_of (filter valid_record raw)) VolumeCalculator_init g"

definition spec_convert_v5 :: "string \<Rightarrow> raw_tick list \<Rightarrow> rng \<Rightarrow> TD list" where
  "spec_convert_v5 s raw g = spec_replay_v5 s (map quote_of_v5 (filter valid_record_v5 raw)) VC_init g"

section \<open>The sockets\<close>

text \<open>
  The handles are the \<^verbatim>\<open>WebSocket\<close> objects of the web framework, an external
  library. Each has an application state. \<^verbatim>\<open>accept()\<close> returns only on a
  socket that is still connecting and whose peer completes the handshake, and
  makes it connected; on a socket that was accepted before it raises. A send
  returns only on a connected socket.
\<close>

datatype ws_state = CONNECTING | CONNECTED | DISCONNECTED

definition accept_socket :: "('h \<Rightarrow> bool) \<Rightarrow> 'h \<Rightarrow> ('h \<Rightarrow> ws_state) \<Rightarrow> bool \<times> ('h \<Rightarrow> ws_state)" where
  "accept_socket peer_ok ws st =
     (if st ws = CONNECTING \<and> peer_ok ws then (True, st(ws := CONNECTED)) else (False, st))"

definition socket_send ::
  "'h \<Rightarrow> tick message \<Rightarrow> ('h \<Rightarrow> ws_state) \<Rightarrow> bool \<times> ('h \<Rightarrow> ws_state)" where
  "socket_send ws msg st = (st ws = CONNECTED, st)"

text \<open>
  The registries and socket states that the two servers can reach: the
  registry starts empty with every socket still to be accepted; it is changed by
  \<open>connect\<close> and \<open>disconnect\<close> only (the removals of a broadcast are calls of
  \<open>disconnect\<close>), and a socket can close at any time.
\<close>

inductive registry_reachable :: "'h list \<Rightarrow> ('h \<Rightarrow> ws_state) \<Rightarrow> bool" where
  rr_new: "registry_reachable [] (\<lambda>ws. CONNECTING)"
| rr_connect:
    "registry_reachable (connections m) st \<Longrightarrow>
     WebSocketManager_connect (accept_socket peer_ok) socket_send L ws m st = (r, m', st') \<Longrightarrow>
     registry_reachable (connections m') st'"
| rr_conn:
    "registry_reachable (conns m5) st \<Longrightarrow>
     WM_conn (accept_socket peer_ok) ws m5 st = (r, m5', st') \<Longrightarrow>
     registry_reachable (conns m5') st'"
| rr_disconnect:
    "registry_reachable (connections m) st \<Longrightarrow>
     registry_reachable (connections (WebSocketManager_disconnect ws m)) st"
| rr_disc:
    "registry_reachable (conns m5) st \<Longrightarrow> registry_reachable (conns (WM_disc ws m5)) st"
| rr_close:
    "registry_reachable cs st \<Longrightarrow> registry_reachable cs (st(ws := DISCONNECTED))"

text \<open>What every reachable registry satisfies: no handle is listed twice, and every
  listed socket has been accepted.\<close>

definition registry_inv :: "'h list \<Rightarrow> ('h \<Rightarrow> ws_state) \<Rightarrow> bool" where
  "registry_inv cs st = (distinct cs \<and> (\<forall>c \<in> set cs. st c \<noteq> CONNECTING))"

section \<open>Observing a broadcast\<close>






section \<open>Concrete inputs\<close>

text \<open>A stream of draws that repeats one value.\<close>

definition const_draws :: "real \<Rightarrow> rng" where
  "const_draws r = (\<lambda>n. r)"

text \<open>The synthesizer of each file after one observation of EURUSD at
  1.0850 / 1.0852 (scenario A of the specification).\<close>

definition vc_after_first :: VolumeCalculator where
  "vc_after_first =
     \<lparr>last_bid = [''EURUSD'' \<mapsto> 10850 / 10000], last_mid = [''EURUSD'' \<mapsto> 10851 / 10000],
      initialized = [''EURUSD'' \<mapsto> True]\<rparr>"

definition vc5_after_first :: VC where
  "vc5_after_first =
     \<lparr>lb = [''EURUSD'' \<mapsto> 10850 / 10000], lm = [''EURUSD'' \<mapsto> 10851 / 10000]\<rparr>"

text \<open>Handles are numbered; every handle but \<open>d\<close> is alive (and completes its
  handshake).\<close>

definition alive_except :: "nat \<Rightarrow> nat \<Rightarrow> bool" where
  "alive_except d c = (c \<noteq> d)"

text \<open>The sockets before any accept, and after the socket 1 was accepted.\<close>

definition sockets_new :: "nat \<Rightarrow> ws_state" where
  "sockets_new = (\<lambda>ws. CONNECTING)"

definition sockets_one :: "nat \<Rightarrow> ws_state" where
  "sockets_one = sockets_new(1 := CONNECTED)"

text \<open>
  A terminal that is installed and logged in, with no history, at a clock of
  1762000000 seconds; and one on which \<^verbatim>\<open>initialize\<close> with credentials raises
  and \<^verbatim>\<open>initialize()\<close> gives \<^verbatim>\<open>False\<close>.
\<close>

definition lib_online :: mt5_lib where
  "lib_online =
     \<lparr>MT5_AVAILABLE = True, initialize_login = Returned True, initialize_plain = Returned True,
      last_error = Returned (), account_info = Returned True, found_path = None, symbol_select = (\<lambda>s. True),
      copy_ticks_range = (\<lambda>s a b. Returned None), copy_ticks_from = (\<lambda>s a n. Returned None),
      utc_now = 1762000000\<rparr>"

definition lib_failing :: mt5_lib where
  "lib_failing = lib_online\<lparr>initialize_login := Raised, initialize_plain := Returned False\<rparr>"

text \<open>The managers after a successful \<^verbatim>\<open>start_mt5("EURUSD")\<close> on a new manager.\<close>

definition manager_live :: "nat WebSocketManager" where
  "manager_live = snd (WebSocketManager_start_mt5 lib_online ''EURUSD'' WebSocketManager_new)"

definition wm_live :: "nat WM" where
  "wm_live = snd (WM_start_mt5 lib_online ''EURUSD'' WM_new)"

text \<open>
  A history batch of four records: a good one, one with bid 0, one of which no
  field can be read, and a good one without \<^verbatim>\<open>time_msc\<close>; and a terminal whose
  range query returns this batch.
\<close>

definition raw_batch :: "raw_tick list" where
  "raw_batch =
     [\<lparr>f_bid = Some (10850 / 10000), f_ask = Some (10852 / 10000), f_time = Some 1,
       f_time_msc = Some 1000, p0 = Some 1, p1 = Some (10850 / 10000), p2 = Some (10852 / 10000)\<rparr>,
      \<lparr>f_bid = Some 0, f_ask = Some (10852 / 10000), f_time = Some 2,
       f_time_msc = Some 2000, p0 = Some 2, p1 = Some 0, p2 = Some (10852 / 10000)\<rparr>,
      \<lparr>f_bid = None, f_ask = None, f_time = None, f_time_msc = None,
       p0 = None, p1 = None, p2 = None\<rparr>,
      \<lparr>f_bid = Some (10855 / 10000), f_ask = Some (10857 / 10000), f_time = Some 3,
       f_time_msc = None, p0 = Some 3, p1 = Some (10855 / 10000), p2 = Some (10857 / 10000)\<rparr>]"

definition lib_history :: mt5_lib where
  "lib_history = lib_online\<lparr>copy_ticks_range := (\<lambda>s a b. Returned (Some raw_batch))\<rparr>"

section \<open>Properties of the symbol configuration\<close>

lemma lower_pair:
  "(a, b) \<in> set (zip ''abcdefghijklmnopqrstuvwxyz'' ''ABCDEFGHIJKLMNOPQRSTUVWXYZ'')
   \<Longrightarrow> upper_char a = b \<and> upper_char b = b"
  apply (simp only: zip_Cons_Cons zip_Nil list.set insert_iff empty_iff Pair_inject)
  apply (elim disjE conjE FalseE; simp add: upper_char_def)
  done

lemma case_variant_upper_char: "case_variant a b \<Longrightarrow> upper_char a = upper_char b"
  unfolding case_variant_def using lower_pair[of a b] lower_pair[of b a] by metis

lemma same_up_to_case_upper: "same_up_to_case s t \<Longrightarrow> upper s = upper t"
  unfolding same_up_to_case_def upper_def
  by (induction s t rule: list_all2_induct) (simp_all add: case_variant_upper_char)

text \<open>
  Claim C9. The profile lookup \<^verbatim>\<open>gcfg\<close> of both files returns a profile for every
  string: an entry of the table or the default. Two symbols that differ only in
  the case of their letters get the same profile, and a symbol whose upper-case
  form is no key of the table gets the default profile with multiplier 1000,
  base volume 5 and 5 digits.
\<close>

theorem gcfg_total_case_insensitive:
  "(same_up_to_case s t \<longrightarrow> gcfg s = gcfg t \<and> gcfg_v6 s = gcfg_v6 t) \<and>
   (upper u \<notin> fst ` set SYM_CFG \<longrightarrow> gcfg u = \<lparr>mult = 1000, bv = 5, dig = 5\<rparr>) \<and>
   (upper u \<notin> fst ` set SYM_CFG_v6 \<longrightarrow> gcfg_v6 u = \<lparr>mult = 1000, bv = 5, dig = 5, base = 1\<rparr>) \<and>
   gcfg u \<in> snd ` set SYM_CFG \<union> {\<lparr>mult = 1000, bv = 5, dig = 5\<rparr>} \<and>
   gcfg_v6 u \<in> snd ` set SYM_CFG_v6 \<union> {\<lparr>mult = 1000, bv = 5, dig = 5, base = 1\<rparr>}"
proof (intro conjI impI)
  assume "same_up_to_case s t"
  then have "upper s = upper t" by (rule same_up_to_case_upper)
  then show "gcfg s = gcfg t" and "gcfg_v6 s = gcfg_v6 t"
    by (simp_all add: gcfg_def gcfg_v6_def)
next
  assume "upper u \<notin> fst ` set SYM_CFG"
  then have "map_of SYM_CFG (upper u) = None" by (simp add: map_of_eq_None_iff)
  then show "gcfg u = \<lparr>mult = 1000, bv = 5, dig = 5\<rparr>" by (simp add: gcfg_def)
next
  assume "upper u \<notin> fst ` set SYM_CFG_v6"
  then have "map_of SYM_CFG_v6 (upper u) = None" by (simp add: map_of_eq_None_iff)
  then show "gcfg_v6 u = \<lparr>mult = 1000, bv = 5, dig = 5, base = 1\<rparr>" by (simp add: gcfg_v6_def)
next
  show "gcfg u \<in> snd ` set SYM_CFG \<union> {\<lparr>mult = 1000, bv = 5, dig = 5\<rparr>}"
  proof (cases "map_of SYM_CFG (upper u)")
    case None then show ?thesis by (simp add: gcfg_def)
  next
    case (Some c)
    then have "(upper u, c) \<in> set SYM_CFG" by (rule map_of_SomeD)
    then have "c \<in> snd ` set SYM_CFG" by force
    with Some show ?thesis by (simp add: gcfg_def)
  qed
next
  show "gcfg_v6 u \<in> snd ` set SYM_CFG_v6 \<union> {\<lparr>mult = 1000, bv = 5, dig = 5, base = 1\<rparr>}"
  proof (cases "map_of SYM_CFG_v6 (upper u)")
    case None then show ?thesis by (simp add: gcfg_v6_def)
  next
    case (Some c)
    then have "(upper u, c) \<in> set SYM_CFG_v6" by (rule map_of_SomeD)
    then have "c \<in> snd ` set SYM_CFG_v6" by force
    with Some show ?thesis by (simp add: gcfg_v6_def)
  qed
qed

theorem gcfg_total_case_insensitive_witness:
  "same_up_to_case ''eurUsd'' ''EURUSD'' \<and>
   gcfg ''eurUsd'' = gcfg ''EURUSD'' \<and> gcfg_v6 ''eurUsd'' = gcfg_v6 ''EURUSD'' \<and>
   upper ''doge'' \<notin> fst ` set SYM_CFG \<and> upper ''doge'' \<notin> fst ` set SYM_CFG_v6 \<and>
   gcfg ''doge'' = \<lparr>mult = 1000, bv = 5, dig = 5\<rparr> \<and>
   gcfg_v6 ''doge'' = \<lparr>mult = 1000, bv = 5, dig = 5, base = 1\<rparr>"
proof -
  have a: "same_up_to_case ''eurUsd'' ''EURUSD''"
    by (simp add: same_up_to_case_def case_variant_def)
  have b: "upper ''doge'' \<notin> fst ` set SYM_CFG"
    by (simp add: SYM_CFG_def upper_def upper_char_def)
  have c: "upper ''doge'' \<notin> fst ` set SYM_CFG_v6"
    by (simp add: SYM_CFG_v6_def upper_def upper_char_def)
  from a b c gcfg_total_case_insensitive [of "''eurUsd''" "''EURUSD''" "''doge''"]
  show ?thesis by blast
qed

section \<open>Properties of the synthesizers\<close>

lemma vc_inv_init: "vc_inv VolumeCalculator_init"
  by (simp add: vc_inv_def VolumeCalculator_init_def)

lemma vc_inv_reset: "vc_inv v \<Longrightarrow> vc_inv (VolumeCalculator_reset so v)"
  by (auto simp: vc_inv_def VolumeCalculator_reset_def VolumeCalculator_init_def split: option.splits)

lemma calc_first:
  "s \<notin> dom (initialized v) \<Longrightarrow>
   VolumeCalculator_calc s bid ask v g =
     (Inr ((bid + ask) / 2, bv (gcfg_v6 s) * (8 / 10 + g 0 * (4 / 10)), 0,
           if g 1 > 5 / 10 then ''buy'' else ''sell''),
      v\<lparr>last_bid := (last_bid v)(s \<mapsto> bid), last_mid := (last_mid v)(s \<mapsto> (bid + ask) / 2),
        initialized := (initialized v)(s \<mapsto> True)\<rparr>,
      \<lambda>n. g (Suc (Suc n)))"
  by (simp add: VolumeCalculator_calc_def Let_def random_random_def coin_flip_def)

lemma calc_later:
  "s \<in> dom (initialized v) \<Longrightarrow> last_mid v s = Some m0 \<Longrightarrow> last_bid v s = Some b0 \<Longrightarrow>
   VolumeCalculator_calc s bid ask v g =
     (Inr ((bid + ask) / 2,
           max ((\<bar>(bid + ask) / 2 - m0\<bar> * mult (gcfg_v6 s) + bv (gcfg_v6 s)) * (7 / 10 + g 0 * (6 / 10)))
               (bv (gcfg_v6 s)) * (if g 1 > 97 / 100 then 3 + g 2 * 5 else 1),
           (bid + ask) / 2 - m0,
           if bid - b0 > 0 then ''buy'' else if bid - b0 < 0 then ''sell''
           else if (if g 1 > 97 / 100 then g 3 else g 2) > 5 / 10 then ''buy'' else ''sell''),
      v\<lparr>last_bid := (last_bid v)(s \<mapsto> bid), last_mid := (last_mid v)(s \<mapsto> (bid + ask) / 2)\<rparr>,
      if bid - b0 > 0 \<or> bid - b0 < 0
      then (if g 1 > 97 / 100 then (\<lambda>n. g (Suc (Suc (Suc n)))) else (\<lambda>n. g (Suc (Suc n))))
      else (if g 1 > 97 / 100 then (\<lambda>n. g (Suc (Suc (Suc (Suc n))))) else (\<lambda>n. g (Suc (Suc (Suc n))))))"
  by (simp add: VolumeCalculator_calc_def Let_def random_random_def coin_flip_def numeral_2_eq_2 numeral_3_eq_3)

lemma vc_inv_lookup:
  assumes "vc_inv v" "s \<in> dom (initialized v)"
  obtains m0 b0 where "last_mid v s = Some m0" "last_bid v s = Some b0"
  using assms unfolding vc_inv_def by blast

lemma vc_inv_calc:
  assumes "vc_inv v" "VolumeCalculator_calc s bid ask v g = (res, v', g')"
  shows "vc_inv v'"
proof (cases "s \<in> dom (initialized v)")
  case False
  from calc_first [OF False, of bid ask g] assms(2)
  have "v' = v\<lparr>last_bid := (last_bid v)(s \<mapsto> bid), last_mid := (last_mid v)(s \<mapsto> (bid + ask) / 2),
        initialized := (initialized v)(s \<mapsto> True)\<rparr>" by simp
  with assms(1) show ?thesis unfolding vc_inv_def by auto
next
  case True
  with assms(1) obtain m0 b0 where l: "last_mid v s = Some m0" "last_bid v s = Some b0"
    by (rule vc_inv_lookup)
  from calc_later [OF True l, of bid ask g] assms(2)
  have "v' = v\<lparr>last_bid := (last_bid v)(s \<mapsto> bid), last_mid := (last_mid v)(s \<mapsto> (bid + ask) / 2)\<rparr>"
    by simp
  with assms(1) show ?thesis unfolding vc_inv_def by auto
qed

lemma vc_reachable_inv: "vc_reachable v \<Longrightarrow> vc_inv v"
  by (induction rule: vc_reachable.induct) (auto intro: vc_inv_init vc_inv_reset vc_inv_calc)

lemma vc_after_first_eq:
  "VolumeCalculator_calc ''EURUSD'' (10850 / 10000) (10852 / 10000) VolumeCalculator_init g =
     (Inr (10851 / 10000, 5 * (8 / 10 + g 0 * (4 / 10)), 0, if g 1 > 5 / 10 then ''buy'' else ''sell''),
      vc_after_first, \<lambda>n. g (Suc (Suc n)))"
proof -
  have "''EURUSD'' \<notin> dom (initialized VolumeCalculator_init)"
    by (simp add: VolumeCalculator_init_def)
  from calc_first [OF this, of "10850 / 10000" "10852 / 10000" g]
  show ?thesis
    by (simp add: vc_after_first_def VolumeCalculator_init_def gcfg_v6_def SYM_CFG_v6_def
        upper_def upper_char_def)
qed

lemma vc_after_first_reachable: "vc_reachable vc_after_first"
  using vc_calc [OF vc_new vc_after_first_eq] .

lemma VC_calc_eq:
  "VC_calc s bid ask w g =
     (((bid + ask) / 2,
       max ((\<bar>(bid + ask) / 2 - (case lm w s of Some x \<Rightarrow> x | None \<Rightarrow> (bid + ask) / 2)\<bar> * mult (gcfg s)
             + bv (gcfg s)) * (7 / 10 + g 0 * (6 / 10))) (bv (gcfg s)),
       (bid + ask) / 2 - (case lm w s of Some x \<Rightarrow> x | None \<Rightarrow> (bid + ask) / 2),
       if bid - (case lb w s of Some x \<Rightarrow> x | None \<Rightarrow> bid) > 0 then ''buy''
       else if bid - (case lb w s of Some x \<Rightarrow> x | None \<Rightarrow> bid) < 0 then ''sell''
       else if g 1 > 5 / 10 then ''buy'' else ''sell''),
      w\<lparr>lb := (lb w)(s \<mapsto> bid), lm := (lm w)(s \<mapsto> (bid + ask) / 2)\<rparr>,
      if bid - (case lb w s of Some x \<Rightarrow> x | None \<Rightarrow> bid) = 0
      then (\<lambda>n. g (Suc (Suc n))) else (\<lambda>n. g (Suc n)))"
  by (simp add: VC_calc_def Let_def random_random_def coin_flip_def)

lemma bv_gcfg_pos: "0 < bv (gcfg s)"
  by (auto simp: gcfg_def SYM_CFG_def split: option.splits if_splits)

lemma bv_gcfg_v6_pos: "0 < bv (gcfg_v6 s)"
  by (auto simp: gcfg_v6_def SYM_CFG_v6_def split: option.splits if_splits)

text \<open>
  Claim C2. After the first observation of a symbol the side that \<open>calc\<close>
  returns follows the sign of \<open>bid - last_bid\<close>: \<open>buy\<close> when it is positive,
  \<open>sell\<close> when it is negative, and only when it is zero a coin flip
  (\<open>buy\<close> when the next draw exceeds 0.5). This holds for every bid and ask, in
  \<^verbatim>\<open>VolumeCalculator.calc\<close> (v6.1, where the draw of the flip comes after the
  jitter and burst draws) and in \<^verbatim>\<open>VC.calc\<close> (v5.1).
\<close>

theorem calc_side_follows_bid_change:
  assumes "vc_reachable v" and "s \<in> dom (initialized v)" and "lb w s = Some b5"
  shows "(\<exists>b0 mid vol pc side v' g'.
            last_bid v s = Some b0 \<and>
            VolumeCalculator_calc s bid ask v g = (Inr (mid, vol, pc, side), v', g') \<and>
            (bid - b0 > 0 \<longrightarrow> side = ''buy'') \<and>
            (bid - b0 < 0 \<longrightarrow> side = ''sell'') \<and>
            (bid - b0 = 0 \<longrightarrow>
               side = (if (if g 1 > 97 / 100 then g 3 else g 2) > 5 / 10 then ''buy'' else ''sell''))) \<and>
         (\<exists>mid vol pc side w' g'.
            VC_calc s bid ask w g = ((mid, vol, pc, side), w', g') \<and>
            (bid - b5 > 0 \<longrightarrow> side = ''buy'') \<and>
            (bid - b5 < 0 \<longrightarrow> side = ''sell'') \<and>
            (bid - b5 = 0 \<longrightarrow> side = (if g 1 > 5 / 10 then ''buy'' else ''sell'')))"
proof
  from assms(1) have "vc_inv v" by (rule vc_reachable_inv)
  then obtain m0 b0 where l: "last_mid v s = Some m0" "last_bid v s = Some b0"
    using assms(2) by (rule vc_inv_lookup)
  show "\<exists>b0 mid vol pc side v' g'.
            last_bid v s = Some b0 \<and>
            VolumeCalculator_calc s bid ask v g = (Inr (mid, vol, pc, side), v', g') \<and>
            (bid - b0 > 0 \<longrightarrow> side = ''buy'') \<and>
            (bid - b0 < 0 \<longrightarrow> side = ''sell'') \<and>
            (bid - b0 = 0 \<longrightarrow>
               side = (if (if g 1 > 97 / 100 then g 3 else g 2) > 5 / 10 then ''buy'' else ''sell''))"
    by (intro exI conjI, rule l(2), rule calc_later [OF assms(2) l]) simp_all
next
  show "\<exists>mid vol pc side w' g'.
            VC_calc s bid ask w g = ((mid, vol, pc, side), w', g') \<and>
            (bid - b5 > 0 \<longrightarrow> side = ''buy'') \<and>
            (bid - b5 < 0 \<longrightarrow> side = ''sell'') \<and>
            (bid - b5 = 0 \<longrightarrow> side = (if g 1 > 5 / 10 then ''buy'' else ''sell''))"
    by (intro exI conjI, rule VC_calc_eq) (simp_all add: assms(3))
qed


theorem calc_side_follows_bid_change_witness:
  "vc_reachable vc_after_first \<and> ''EURUSD'' \<in> dom (initialized vc_after_first) \<and>
   lb vc5_after_first ''EURUSD'' = Some (10850 / 10000) \<and>
   (\<exists>mid vol pc v' g'.
      VolumeCalculator_calc ''EURUSD'' (10855 / 10000) (10857 / 10000) vc_after_first (const_draws 0)
        = (Inr (mid, vol, pc, ''buy''), v', g')) \<and>
   (\<exists>mid vol pc w' g'.
      VC_calc ''EURUSD'' (10855 / 10000) (10857 / 10000) vc5_after_first (const_draws 0)
        = ((mid, vol, pc, ''buy''), w', g'))"
proof -
  have h2: "''EURUSD'' \<in> dom (initialized vc_after_first)"
    by (simp add: vc_after_first_def)
  have h3: "lb vc5_after_first ''EURUSD'' = Some (10850 / 10000)"
    by (simp add: vc5_after_first_def)
  have b: "last_bid vc_after_first ''EURUSD'' = Some (10850 / 10000)"
    by (simp add: vc_after_first_def)
  from calc_side_follows_bid_change [OF vc_after_first_reachable h2 h3,
      of "10855 / 10000" "10857 / 10000" "const_draws 0"] b
  have "(\<exists>mid vol pc v' g'.
      VolumeCalculator_calc ''EURUSD'' (10855 / 10000) (10857 / 10000) vc_after_first (const_draws 0)
        = (Inr (mid, vol, pc, ''buy''), v', g'))"
   and "(\<exists>mid vol pc w' g'.
      VC_calc ''EURUSD'' (10855 / 10000) (10857 / 10000) vc5_after_first (const_draws 0)
        = ((mid, vol, pc, ''buy''), w', g'))"
    by auto
  with vc_after_first_reachable h2 h3 show ?thesis by blast
qed

text \<open>
  Claim C3 says that every call of \<open>calc\<close>, the first observation included,
  returns a volume of at least the base volume. In v6.1 the first observation of
  EURUSD with the draw 0 returns the volume 4, below the base volume 5.
\<close>

theorem first_volume_below_base_counterexample:
  "fst (VolumeCalculator_calc ''EURUSD'' (10850 / 10000) (10852 / 10000) VolumeCalculator_init
          (const_draws 0)) = Inr (10851 / 10000, 4, 0, ''sell'') \<and>
   (4 :: real) < bv (gcfg_v6 ''EURUSD'')"
  by (simp only: vc_after_first_eq fst_conv)
     (simp add: const_draws_def gcfg_v6_def SYM_CFG_v6_def upper_def upper_char_def)

lemma burst_keeps_base:
  assumes "0 < b" "0 \<le> (r::real)"
  shows "b \<le> max x b * (if c then 3 + r * 5 else 1)"
proof -
  have "b \<le> max x b" by simp
  moreover have "max x b * 1 \<le> max x b * (if c then 3 + r * 5 else 1)"
    using assms by (intro mult_left_mono) auto
  ultimately show ?thesis by simp
qed

text \<open>
  Claim C3, amended. With draws in \<open>[0, 1)\<close>: \<^verbatim>\<open>VolumeCalculator.calc\<close> (v6.1)
  returns a volume of at least the base volume on every call after the first
  observation of the symbol; on the first observation it returns
  \<open>base_volume * (0.8 + 0.4 * r)\<close>, which lies in \<open>[0.8, 1.2)\<close> times the base
  volume and is below the base volume exactly when the draw \<open>r\<close> is below 0.5.
  \<^verbatim>\<open>VC.calc\<close> (v5.1) returns at least the base volume on every call.
\<close>

theorem calc_volume_at_least_base:
  assumes "\<forall>n. 0 \<le> g n \<and> g n < 1" and "vc_reachable v"
  shows "(s \<in> dom (initialized v) \<longrightarrow>
            (\<exists>mid vol pc side v' g'.
               VolumeCalculator_calc s bid ask v g = (Inr (mid, vol, pc, side), v', g') \<and>
               bv (gcfg_v6 s) \<le> vol)) \<and>
         (s \<notin> dom (initialized v) \<longrightarrow>
            (\<exists>mid vol pc side v' g'.
               VolumeCalculator_calc s bid ask v g = (Inr (mid, vol, pc, side), v', g') \<and>
               vol = bv (gcfg_v6 s) * (8 / 10 + g 0 * (4 / 10)) \<and>
               bv (gcfg_v6 s) * (8 / 10) \<le> vol \<and> vol < bv (gcfg_v6 s) * (12 / 10) \<and>
               (vol < bv (gcfg_v6 s) \<longleftrightarrow> g 0 < 1 / 2))) \<and>
         (\<exists>mid vol pc side w' g'.
            VC_calc s bid ask w g = ((mid, vol, pc, side), w', g') \<and> bv (gcfg s) \<le> vol)"
proof (intro conjI impI)
  assume i: "s \<in> dom (initialized v)"
  from assms(2) have "vc_inv v" by (rule vc_reachable_inv)
  then obtain m0 b0 where l: "last_mid v s = Some m0" "last_bid v s = Some b0"
    using i by (rule vc_inv_lookup)
  from assms(1) have "0 \<le> g 2" by blast
  with bv_gcfg_v6_pos [of s]
  have x: "bv (gcfg_v6 s) \<le>
        max ((\<bar>(bid + ask) / 2 - m0\<bar> * mult (gcfg_v6 s) + bv (gcfg_v6 s)) * (7 / 10 + g 0 * (6 / 10)))
            (bv (gcfg_v6 s)) * (if g 1 > 97 / 100 then 3 + g 2 * 5 else 1)"
    by (rule burst_keeps_base)
  show "\<exists>mid vol pc side v' g'.
               VolumeCalculator_calc s bid ask v g = (Inr (mid, vol, pc, side), v', g') \<and>
               bv (gcfg_v6 s) \<le> vol"
    by (intro exI conjI, rule calc_later [OF i l], rule x)
next
  assume i: "s \<notin> dom (initialized v)"
  from assms(1) have r: "0 \<le> g 0" "g 0 < 1" by blast+
  have p: "0 < bv (gcfg_v6 s)" by (rule bv_gcfg_v6_pos)
  have a: "bv (gcfg_v6 s) * (8 / 10) \<le> bv (gcfg_v6 s) * (8 / 10 + g 0 * (4 / 10))"
    using p r by (intro mult_left_mono) auto
  have b: "bv (gcfg_v6 s) * (8 / 10 + g 0 * (4 / 10)) < bv (gcfg_v6 s) * (12 / 10)"
    using p r by (intro mult_strict_left_mono) auto
  have c: "bv (gcfg_v6 s) * (8 / 10 + g 0 * (4 / 10)) < bv (gcfg_v6 s) \<longleftrightarrow> g 0 < 1 / 2"
  proof -
    have "bv (gcfg_v6 s) * (8 / 10 + g 0 * (4 / 10)) < bv (gcfg_v6 s) * 1 \<longleftrightarrow> 8 / 10 + g 0 * (4 / 10) < 1"
      using p by (rule mult_less_cancel_left_pos)
    moreover have "8 / 10 + g 0 * (4 / 10) < 1 \<longleftrightarrow> g 0 < 1 / 2" by linarith
    ultimately show ?thesis by simp
  qed
  show "\<exists>mid vol pc side v' g'.
               VolumeCalculator_calc s bid ask v g = (Inr (mid, vol, pc, side), v', g') \<and>
               vol = bv (gcfg_v6 s) * (8 / 10 + g 0 * (4 / 10)) \<and>
               bv (gcfg_v6 s) * (8 / 10) \<le> vol \<and> vol < bv (gcfg_v6 s) * (12 / 10) \<and>
               (vol < bv (gcfg_v6 s) \<longleftrightarrow> g 0 < 1 / 2)"
    by (intro exI conjI, rule calc_first [OF i], rule refl, rule a, rule b, rule c)
next
  show "\<exists>mid vol pc side w' g'.
            VC_calc s bid ask w g = ((mid, vol, pc, side), w', g') \<and> bv (gcfg s) \<le> vol"
    by (intro exI conjI, rule VC_calc_eq) simp
qed


lemma const_draws_unit: "0 \<le> r \<Longrightarrow> r < 1 \<Longrightarrow> \<forall>n. 0 \<le> const_draws r n \<and> const_draws r n < 1"
  by (simp add: const_draws_def)

lemma bv_eurusd: "bv (gcfg_v6 ''EURUSD'') = 5" "bv (gcfg ''EURUSD'') = 5"
  by (simp_all add: gcfg_v6_def gcfg_def SYM_CFG_v6_def SYM_CFG_def upper_def upper_char_def)

lemma bv_xauusd: "bv (gcfg_v6 ''XAUUSD'') = 10" "bv (gcfg ''XAUUSD'') = 10"
  by (simp_all add: gcfg_v6_def gcfg_def SYM_CFG_v6_def SYM_CFG_def upper_def upper_char_def)

theorem calc_volume_at_least_base_witness:
  "(\<forall>n. 0 \<le> const_draws (1 / 4) n \<and> const_draws (1 / 4) n < 1) \<and>
   vc_reachable vc_after_first \<and>
   ''EURUSD'' \<in> dom (initialized vc_after_first) \<and>
   ''XAUUSD'' \<notin> dom (initialized vc_after_first) \<and>
   (\<exists>mid vol pc side v' g'.
      VolumeCalculator_calc ''EURUSD'' (10855 / 10000) (10857 / 10000) vc_after_first
        (const_draws (1 / 4)) = (Inr (mid, vol, pc, side), v', g') \<and> 5 \<le> vol) \<and>
   (\<exists>mid vol pc side v' g'.
      VolumeCalculator_calc ''XAUUSD'' 2900 2901 vc_after_first (const_draws (1 / 4))
        = (Inr (mid, vol, pc, side), v', g') \<and> vol = 9 \<and> vol < 10) \<and>
   (\<exists>mid vol pc side w' g'.
      VC_calc ''XAUUSD'' 2900 2901 vc5_after_first (const_draws (1 / 4))
        = ((mid, vol, pc, side), w', g') \<and> 10 \<le> vol)"
proof -
  have h1: "\<forall>n. 0 \<le> const_draws (1 / 4) n \<and> const_draws (1 / 4) n < 1"
    by (rule const_draws_unit) simp_all
  have h2: "''EURUSD'' \<in> dom (initialized vc_after_first)"
    by (simp add: vc_after_first_def)
  have h3: "''XAUUSD'' \<notin> dom (initialized vc_after_first)"
    by (simp add: vc_after_first_def)
  have d: "const_draws (1 / 4) 0 = 1 / 4" by (simp add: const_draws_def)
  from calc_volume_at_least_base [OF h1 vc_after_first_reachable,
      of "''EURUSD''" "10855 / 10000" "10857 / 10000" vc5_after_first] h2
  have a: "\<exists>mid vol pc side v' g'.
      VolumeCalculator_calc ''EURUSD'' (10855 / 10000) (10857 / 10000) vc_after_first
        (const_draws (1 / 4)) = (Inr (mid, vol, pc, side), v', g') \<and> 5 \<le> vol"
    by (simp only: bv_eurusd)
  from calc_volume_at_least_base [OF h1 vc_after_first_reachable,
      of "''XAUUSD''" 2900 2901 vc5_after_first] h3
  have b: "\<exists>mid vol pc side v' g'.
      VolumeCalculator_calc ''XAUUSD'' 2900 2901 vc_after_first (const_draws (1 / 4))
        = (Inr (mid, vol, pc, side), v', g') \<and> vol = 9 \<and> vol < 10"
    and c: "\<exists>mid vol pc side w' g'.
      VC_calc ''XAUUSD'' 2900 2901 vc5_after_first (const_draws (1 / 4))
        = ((mid, vol, pc, side), w', g') \<and> 10 \<le> vol"
    by (simp_all only: bv_xauusd d) auto
  from h1 vc_after_first_reachable h2 h3 a b c show ?thesis by blast
qed

text \<open>
  Claim C4 says that a first observation returns the volume
  \<open>base_volume * uniform(0.8, 1.2)\<close>. In v5.1 the first observation of EURUSD with
  the draw 0.9 returns 6.2, above 1.2 times the base volume 5.
\<close>

theorem VC_first_volume_counterexample:
  "fst (VC_calc ''EURUSD'' (10850 / 10000) (10852 / 10000) VC_init (const_draws (9 / 10)))
     = (10851 / 10000, 62 / 10, 0, ''buy'') \<and>
   bv (gcfg ''EURUSD'') * (12 / 10) < (62 / 10 :: real)"
  by (simp only: VC_calc_eq fst_conv bv_eurusd) (simp add: VC_init_def const_draws_def)

text \<open>
  Claim C4, amended. When \<open>calc\<close> runs with no stored state for the symbol (a
  new synthesizer, or after \<open>reset(symbol)\<close>) it stores \<open>bid\<close> and
  \<open>(bid + ask) / 2\<close> for the symbol and returns the price change 0 and a side
  chosen by a coin flip. The volume is \<open>base_volume * (0.8 + 0.4 * r)\<close> in
  \<^verbatim>\<open>VolumeCalculator.calc\<close> (v6.1) and
  \<open>max (base_volume * (0.7 + 0.6 * r)) base_volume\<close> in \<^verbatim>\<open>VC.calc\<close> (v5.1), for
  the first draw \<open>r\<close>.
\<close>

theorem first_observation_seeds_state:
  "(s \<notin> dom (initialized v) \<longrightarrow>
      VolumeCalculator_calc s bid ask v g =
        (Inr ((bid + ask) / 2, bv (gcfg_v6 s) * (8 / 10 + g 0 * (4 / 10)), 0,
              if g 1 > 5 / 10 then ''buy'' else ''sell''),
         v\<lparr>last_bid := (last_bid v)(s \<mapsto> bid), last_mid := (last_mid v)(s \<mapsto> (bid + ask) / 2),
           initialized := (initialized v)(s \<mapsto> True)\<rparr>,
         \<lambda>n. g (Suc (Suc n)))) \<and>
   s \<notin> dom (initialized VolumeCalculator_init) \<and>
   s \<notin> dom (initialized (VolumeCalculator_reset (Some s) v)) \<and>
   (lb w s = None \<and> lm w s = None \<longrightarrow>
      VC_calc s bid ask w g =
        (((bid + ask) / 2, max (bv (gcfg s) * (7 / 10 + g 0 * (6 / 10))) (bv (gcfg s)), 0,
          if g 1 > 5 / 10 then ''buy'' else ''sell''),
         w\<lparr>lb := (lb w)(s \<mapsto> bid), lm := (lm w)(s \<mapsto> (bid + ask) / 2)\<rparr>,
         \<lambda>n. g (Suc (Suc n)))) \<and>
   lb VC_init s = None \<and> lm VC_init s = None \<and>
   lb (VC_reset (Some s) w) s = None \<and> lm (VC_reset (Some s) w) s = None"
proof (intro conjI impI)
  assume "s \<notin> dom (initialized v)"
  then show "VolumeCalculator_calc s bid ask v g =
        (Inr ((bid + ask) / 2, bv (gcfg_v6 s) * (8 / 10 + g 0 * (4 / 10)), 0,
              if g 1 > 5 / 10 then ''buy'' else ''sell''),
         v\<lparr>last_bid := (last_bid v)(s \<mapsto> bid), last_mid := (last_mid v)(s \<mapsto> (bid + ask) / 2),
           initialized := (initialized v)(s \<mapsto> True)\<rparr>,
         \<lambda>n. g (Suc (Suc n)))"
    by (rule calc_first)
next
  assume "lb w s = None \<and> lm w s = None"
  then show "VC_calc s bid ask w g =
        (((bid + ask) / 2, max (bv (gcfg s) * (7 / 10 + g 0 * (6 / 10))) (bv (gcfg s)), 0,
          if g 1 > 5 / 10 then ''buy'' else ''sell''),
         w\<lparr>lb := (lb w)(s \<mapsto> bid), lm := (lm w)(s \<mapsto> (bid + ask) / 2)\<rparr>,
         \<lambda>n. g (Suc (Suc n)))"
    by (simp only: VC_calc_eq) simp
qed (simp_all add: VolumeCalculator_init_def VolumeCalculator_reset_def VC_init_def VC_reset_def)


theorem first_observation_seeds_state_witness:
  "''XAUUSD'' \<notin> dom (initialized vc_after_first) \<and>
   lb vc5_after_first ''XAUUSD'' = None \<and> lm vc5_after_first ''XAUUSD'' = None \<and>
   fst (VolumeCalculator_calc ''XAUUSD'' 2900 2901 vc_after_first (const_draws (1 / 4)))
     = Inr (5801 / 2, 9, 0, ''sell'') \<and>
   fst (VC_calc ''XAUUSD'' 2900 2901 vc5_after_first (const_draws (1 / 4)))
     = (5801 / 2, 10, 0, ''sell'')"
proof -
  have h1: "''XAUUSD'' \<notin> dom (initialized vc_after_first)"
    by (simp add: vc_after_first_def)
  have h2: "lb vc5_after_first ''XAUUSD'' = None \<and> lm vc5_after_first ''XAUUSD'' = None"
    by (simp add: vc5_after_first_def)
  note t = first_observation_seeds_state
    [of "''XAUUSD''" vc_after_first 2900 2901 "const_draws (1 / 4)" vc5_after_first]
  from t h1 have "fst (VolumeCalculator_calc ''XAUUSD'' 2900 2901 vc_after_first (const_draws (1 / 4)))
     = Inr ((2900 + 2901) / 2, bv (gcfg_v6 ''XAUUSD'') * (8 / 10 + const_draws (1 / 4) 0 * (4 / 10)), 0,
            if const_draws (1 / 4) 1 > 5 / 10 then ''buy'' else ''sell'')"
    by simp
  then have a: "fst (VolumeCalculator_calc ''XAUUSD'' 2900 2901 vc_after_first (const_draws (1 / 4)))
     = Inr (5801 / 2, 9, 0, ''sell'')"
    by (simp add: bv_xauusd const_draws_def)
  from t h2 have "fst (VC_calc ''XAUUSD'' 2900 2901 vc5_after_first (const_draws (1 / 4)))
     = ((2900 + 2901) / 2,
        max (bv (gcfg ''XAUUSD'') * (7 / 10 + const_draws (1 / 4) 0 * (6 / 10))) (bv (gcfg ''XAUUSD'')), 0,
        if const_draws (1 / 4) 1 > 5 / 10 then ''buy'' else ''sell'')"
    by simp
  then have b: "fst (VC_calc ''XAUUSD'' 2900 2901 vc5_after_first (const_draws (1 / 4)))
     = (5801 / 2, 10, 0, ''sell'')"
    by (simp add: bv_xauusd const_draws_def)
  from h1 h2 a b show ?thesis by blast
qed

text \<open>
  Claim C7 says that \<open>calc\<close> multiplies the volume by a burst factor when a
  draw exceeds the threshold. With every draw at 0.99, \<^verbatim>\<open>VC.calc\<close> (v5.1)
  returns the volume 71.17 without a factor, where \<^verbatim>\<open>VolumeCalculator.calc\<close>
  (v6.1) on the same quote and state returns 71.17 times 7.95.
\<close>

theorem VC_calc_no_burst_counterexample:
  "fst (VC_calc ''EURUSD'' (10855 / 10000) (10857 / 10000) vc5_after_first (const_draws (99 / 100)))
     = (10856 / 10000, 7117 / 100, 5 / 10000, ''buy'') \<and>
   fst (VolumeCalculator_calc ''EURUSD'' (10855 / 10000) (10857 / 10000) vc_after_first
          (const_draws (99 / 100)))
     = Inr (10856 / 10000, 7117 / 100 * (3 + 99 / 100 * 5), 5 / 10000, ''buy'')"
proof
  show "fst (VC_calc ''EURUSD'' (10855 / 10000) (10857 / 10000) vc5_after_first (const_draws (99 / 100)))
     = (10856 / 10000, 7117 / 100, 5 / 10000, ''buy'')"
    by (simp only: VC_calc_eq fst_conv)
       (simp add: vc5_after_first_def const_draws_def gcfg_def SYM_CFG_def upper_def upper_char_def)
next
  have i: "''EURUSD'' \<in> dom (initialized vc_after_first)"
    and m: "last_mid vc_after_first ''EURUSD'' = Some (10851 / 10000)"
    and b: "last_bid vc_after_first ''EURUSD'' = Some (10850 / 10000)"
    by (simp_all add: vc_after_first_def)
  show "fst (VolumeCalculator_calc ''EURUSD'' (10855 / 10000) (10857 / 10000) vc_after_first
          (const_draws (99 / 100)))
     = Inr (10856 / 10000, 7117 / 100 * (3 + 99 / 100 * 5), 5 / 10000, ''buy'')"
    by (simp only: calc_later [OF i m b] fst_conv)
       (simp add: const_draws_def gcfg_v6_def SYM_CFG_v6_def upper_def upper_char_def)
qed

lemma simulate_round_volume:
  "simulate_quote n pr (wm_sym m) g = ((sp, bid, ask), pr', g0) \<Longrightarrow>
   VC_calc (wm_sym m) bid ask (wm_vc m) g0 = ((mid, vol, pc, side), w', g1) \<Longrightarrow>
   t_volume_synthetic (fst (WM_simulate_round n now_ms pr m g))
     = py_round (vol * (if g1 0 > 95 / 100 then 3 + g1 1 * 5 else 1)) 2"
  by (simp add: WM_simulate_round_def Let_def random_random_def)

text \<open>
  Claim C7, amended. After the first observation \<^verbatim>\<open>VolumeCalculator.calc\<close>
  (v6.1) multiplies the volume by \<open>3 + 5 * r'\<close>, a factor in \<open>[3, 8)\<close>, exactly
  when the draw after the jitter draw exceeds 0.97 (a uniform draw does so with
  probability 0.03), and by nothing otherwise; this holds on every state the
  synthesizer can reach. \<^verbatim>\<open>VC.calc\<close> (v5.1) never applies a factor, whatever its
  state and the draws; there \<^verbatim>\<open>WM.simulate\<close> multiplies the volume that \<open>calc\<close>
  returned by \<open>3 + 5 * r'\<close> when the next draw exceeds 0.95, before rounding it
  to 2 digits.
\<close>

theorem burst_inside_calc_v6_only:
  "(s \<in> dom (initialized v) \<and> last_mid v s = Some m0 \<and> last_bid v s = Some b0 \<longrightarrow>
      (\<exists>mid vol pc side v' g'.
         VolumeCalculator_calc s bid ask v g = (Inr (mid, vol, pc, side), v', g') \<and>
         vol = max ((\<bar>(bid + ask) / 2 - m0\<bar> * mult (gcfg_v6 s) + bv (gcfg_v6 s))
                      * (7 / 10 + g 0 * (6 / 10))) (bv (gcfg_v6 s))
               * (if g 1 > 97 / 100 then 3 + g 2 * 5 else 1))) \<and>
   (vc_reachable v \<and> s \<in> dom (initialized v) \<longrightarrow>
      (\<exists>m1 mid vol pc side v' g'.
         last_mid v s = Some m1 \<and>
         VolumeCalculator_calc s bid ask v g = (Inr (mid, vol, pc, side), v', g') \<and>
         vol = max ((\<bar>(bid + ask) / 2 - m1\<bar> * mult (gcfg_v6 s) + bv (gcfg_v6 s))
                      * (7 / 10 + g 0 * (6 / 10))) (bv (gcfg_v6 s))
               * (if g 1 > 97 / 100 then 3 + g 2 * 5 else 1))) \<and>
   (0 \<le> g 2 \<and> g 2 < 1 \<longrightarrow> 3 \<le> 3 + g 2 * 5 \<and> 3 + g 2 * 5 < 8) \<and>
   (\<exists>mid vol pc side w' g'.
      VC_calc s bid ask w g = ((mid, vol, pc, side), w', g') \<and>
      vol = max ((\<bar>(bid + ask) / 2 - (case lm w s of Some x \<Rightarrow> x | None \<Rightarrow> (bid + ask) / 2)\<bar>
                    * mult (gcfg s) + bv (gcfg s))
                 * (7 / 10 + g 0 * (6 / 10))) (bv (gcfg s))) \<and>
   (simulate_quote n pr (wm_sym m) g = ((sp, sbid, sask), pr', g0) \<and>
    VC_calc (wm_sym m) sbid sask (wm_vc m) g0 = ((smid, svol, spc, sside), w1, g1) \<longrightarrow>
      t_volume_synthetic (fst (WM_simulate_round n now_ms pr m g))
        = py_round (svol * (if g1 0 > 95 / 100 then 3 + g1 1 * 5 else 1)) 2)"
proof (intro conjI impI)
  assume "s \<in> dom (initialized v) \<and> last_mid v s = Some m0 \<and> last_bid v s = Some b0"
  then have i: "s \<in> dom (initialized v)" and l: "last_mid v s = Some m0" "last_bid v s = Some b0"
    by simp_all
  show "\<exists>mid vol pc side v' g'.
         VolumeCalculator_calc s bid ask v g = (Inr (mid, vol, pc, side), v', g') \<and>
         vol = max ((\<bar>(bid + ask) / 2 - m0\<bar> * mult (gcfg_v6 s) + bv (gcfg_v6 s))
                      * (7 / 10 + g 0 * (6 / 10))) (bv (gcfg_v6 s))
               * (if g 1 > 97 / 100 then 3 + g 2 * 5 else 1)"
    by (intro exI conjI, rule calc_later [OF i l], rule refl)
next
  assume "vc_reachable v \<and> s \<in> dom (initialized v)"
  then have r: "vc_reachable v" and i: "s \<in> dom (initialized v)" by simp_all
  from r have "vc_inv v" by (rule vc_reachable_inv)
  from this i obtain m1 b1 where l: "last_mid v s = Some m1" "last_bid v s = Some b1"
    by (rule vc_inv_lookup)
  show "\<exists>m1 mid vol pc side v' g'.
         last_mid v s = Some m1 \<and>
         VolumeCalculator_calc s bid ask v g = (Inr (mid, vol, pc, side), v', g') \<and>
         vol = max ((\<bar>(bid + ask) / 2 - m1\<bar> * mult (gcfg_v6 s) + bv (gcfg_v6 s))
                      * (7 / 10 + g 0 * (6 / 10))) (bv (gcfg_v6 s))
               * (if g 1 > 97 / 100 then 3 + g 2 * 5 else 1)"
    by (intro exI conjI, rule l(1), rule calc_later [OF i l], rule refl)
next
  assume "0 \<le> g 2 \<and> g 2 < 1"
  then show "3 \<le> 3 + g 2 * 5" and "3 + g 2 * 5 < 8" by simp_all
next
  show "\<exists>mid vol pc side w' g'.
      VC_calc s bid ask w g = ((mid, vol, pc, side), w', g') \<and>
      vol = max ((\<bar>(bid + ask) / 2 - (case lm w s of Some x \<Rightarrow> x | None \<Rightarrow> (bid + ask) / 2)\<bar>
                    * mult (gcfg s) + bv (gcfg s))
                 * (7 / 10 + g 0 * (6 / 10))) (bv (gcfg s))"
    by (intro exI conjI, rule VC_calc_eq, rule refl)
next
  assume "simulate_quote n pr (wm_sym m) g = ((sp, sbid, sask), pr', g0) \<and>
    VC_calc (wm_sym m) sbid sask (wm_vc m) g0 = ((smid, svol, spc, sside), w1, g1)"
  then have q: "simulate_quote n pr (wm_sym m) g = ((sp, sbid, sask), pr', g0)"
    and c: "VC_calc (wm_sym m) sbid sask (wm_vc m) g0 = ((smid, svol, spc, sside), w1, g1)"
    by simp_all
  show "t_volume_synthetic (fst (WM_simulate_round n now_ms pr m g))
        = py_round (svol * (if g1 0 > 95 / 100 then 3 + g1 1 * 5 else 1)) 2"
    by (rule simulate_round_volume [OF q c])
qed

theorem burst_inside_calc_v6_only_witness:
  "''EURUSD'' \<in> dom (initialized vc_after_first) \<and>
   last_mid vc_after_first ''EURUSD'' = Some (10851 / 10000) \<and>
   last_bid vc_after_first ''EURUSD'' = Some (10850 / 10000) \<and>
   vc_reachable vc_after_first \<and>
   (0 \<le> const_draws (99 / 100) 2 \<and> const_draws (99 / 100) 2 < 1) \<and>
   (\<exists>mid pc side v' g'.
      VolumeCalculator_calc ''EURUSD'' (10855 / 10000) (10857 / 10000) vc_after_first
        (const_draws (99 / 100)) = (Inr (mid, 7117 / 100 * (795 / 100), pc, side), v', g')) \<and>
   (\<exists>mid pc side w' g'.
      VC_calc ''EURUSD'' (10855 / 10000) (10857 / 10000) vc5_after_first (const_draws (99 / 100))
        = ((mid, 7117 / 100, pc, side), w', g')) \<and>
   t_volume_synthetic
     (fst (WM_simulate_round 1 0 Map.empty (WM_new :: nat WM) (const_draws (99 / 100))))
     = 5144 / 100"
proof -
  let ?g = "const_draws (99 / 100)"
  have i: "''EURUSD'' \<in> dom (initialized vc_after_first)"
    and l: "last_mid vc_after_first ''EURUSD'' = Some (10851 / 10000)"
           "last_bid vc_after_first ''EURUSD'' = Some (10850 / 10000)"
    by (simp_all add: vc_after_first_def)
  note r = vc_after_first_reachable
  have l5: "lm vc5_after_first ''EURUSD'' = Some (10851 / 10000)"
    by (simp add: vc5_after_first_def)
  have d: "0 \<le> ?g 2 \<and> ?g 2 < 1" by (simp add: const_draws_def)
  obtain sp sbid sask pr' g0 where
    q: "simulate_quote 1 Map.empty (wm_sym (WM_new :: nat WM)) ?g = ((sp, sbid, sask), pr', g0)"
    by (metis prod.exhaust)
  then have g0: "g0 = (\<lambda>n. 99 / 100)"
    by (simp add: simulate_quote_def Let_def random_random_def const_draws_def)
  obtain smid svol spc sside w1 g1 where
    c: "VC_calc (wm_sym (WM_new :: nat WM)) sbid sask (wm_vc (WM_new :: nat WM)) g0
          = ((smid, svol, spc, sside), w1, g1)"
    by (metis prod.exhaust)
  from c have sv: "svol = 647 / 100" and g1: "g1 0 = 99 / 100" "g1 1 = 99 / 100"
    by (auto simp add: VC_calc_eq WM_new_def VC_init_def g0 gcfg_def SYM_CFG_def upper_def
        upper_char_def)
  note t = burst_inside_calc_v6_only
    [where s = "''EURUSD''" and v = vc_after_first and ?m0.0 = "10851 / 10000"
       and ?b0.0 = "10850 / 10000" and bid = "10855 / 10000" and ask = "10857 / 10000"
       and g = ?g and w = vc5_after_first and n = 1 and pr = Map.empty
       and m = "WM_new :: nat WM" and sp = sp and sbid = sbid and sask = sask and pr' = pr'
       and ?g0.0 = g0 and smid = smid and svol = svol and spc = spc and sside = sside
       and ?w1.0 = w1 and ?g1.0 = g1 and now_ms = 0]
  from t [THEN conjunct1] i l obtain mid vol pc side v' g' where
    c1: "VolumeCalculator_calc ''EURUSD'' (10855 / 10000) (10857 / 10000) vc_after_first ?g
           = (Inr (mid, vol, pc, side), v', g')" and
    v1: "vol = max ((\<bar>(10855 / 10000 + 10857 / 10000) / 2 - 10851 / 10000\<bar> * mult (gcfg_v6 ''EURUSD'')
                      + bv (gcfg_v6 ''EURUSD'')) * (7 / 10 + ?g 0 * (6 / 10))) (bv (gcfg_v6 ''EURUSD''))
               * (if ?g 1 > 97 / 100 then 3 + ?g 2 * 5 else 1)"
    by blast
  have "vol = 7117 / 100 * (795 / 100)"
    unfolding v1 by (simp add: const_draws_def gcfg_v6_def SYM_CFG_v6_def upper_def upper_char_def)
  with c1 have a: "\<exists>mid pc side v' g'.
      VolumeCalculator_calc ''EURUSD'' (10855 / 10000) (10857 / 10000) vc_after_first ?g
        = (Inr (mid, 7117 / 100 * (795 / 100), pc, side), v', g')"
    by blast
  from t [THEN conjunct2, THEN conjunct2, THEN conjunct2, THEN conjunct1]
  obtain mid5 vol5 pc5 side5 w5 g5 where
    c5: "VC_calc ''EURUSD'' (10855 / 10000) (10857 / 10000) vc5_after_first ?g
           = ((mid5, vol5, pc5, side5), w5, g5)" and
    v5: "vol5 = max ((\<bar>(10855 / 10000 + 10857 / 10000) / 2
                        - (case lm vc5_after_first ''EURUSD'' of Some x \<Rightarrow> x
                           | None \<Rightarrow> (10855 / 10000 + 10857 / 10000) / 2)\<bar> * mult (gcfg ''EURUSD'')
                      + bv (gcfg ''EURUSD'')) * (7 / 10 + ?g 0 * (6 / 10))) (bv (gcfg ''EURUSD''))"
    by blast
  have "vol5 = 7117 / 100"
    unfolding v5 l5
    by (simp add: const_draws_def gcfg_def SYM_CFG_def upper_def upper_char_def)
  with c5 have b: "\<exists>mid pc side w' g'.
      VC_calc ''EURUSD'' (10855 / 10000) (10857 / 10000) vc5_after_first ?g
        = ((mid, 7117 / 100, pc, side), w', g')"
    by blast
  from t [THEN conjunct2, THEN conjunct2, THEN conjunct2, THEN conjunct2] q c
  have "t_volume_synthetic (fst (WM_simulate_round 1 0 Map.empty (WM_new :: nat WM) ?g))
        = py_round (svol * (if g1 0 > 95 / 100 then 3 + g1 1 * 5 else 1)) 2"
    by blast
  moreover have "py_round (svol * (if g1 0 > 95 / 100 then 3 + g1 1 * 5 else 1)) 2 = 5144 / 100"
    unfolding sv g1 by (simp add: py_round_def Let_def)
  ultimately have e: "t_volume_synthetic (fst (WM_simulate_round 1 0 Map.empty (WM_new :: nat WM) ?g))
        = 5144 / 100"
    by (rule trans)
  from i l r d a b e show ?thesis by blast
qed

text \<open>
  Claim C10. On every state a synthesizer can reach, \<open>calc\<close> returns for any
  real bid and ask (zero, negative and crossed quotes included) a 4-tuple whose
  first component is \<open>(bid + ask) / 2\<close> and whose side is \<open>buy\<close> or \<open>sell\<close>; it
  raises nothing and leaves a reachable state. \<open>calc\<close> does not look at the sign
  of the quote: the check for a positive bid and ask is in the callers, as in the
  history loops, which skip such a record.
\<close>

theorem calc_total_any_quote:
  assumes "vc_reachable v"
  shows "(\<exists>vol pc side v' g'.
            VolumeCalculator_calc s bid ask v g = (Inr ((bid + ask) / 2, vol, pc, side), v', g') \<and>
            (side = ''buy'' \<or> side = ''sell'') \<and> vc_reachable v') \<and>
         (\<exists>vol pc side w' g'.
            VC_calc s bid ask w g = (((bid + ask) / 2, vol, pc, side), w', g') \<and>
            (side = ''buy'' \<or> side = ''sell'')) \<and>
         (parse_named t = Some (bid, ask, ts, tms) \<and> (bid \<le> 0 \<or> ask \<le> 0) \<longrightarrow>
            history_loop s (t # raw) v res g = history_loop s raw v res g) \<and>
         (parse_v5 t = Some (bid, ask, ts, tms) \<and> (bid \<le> 0 \<or> ask \<le> 0) \<longrightarrow>
            history_loop_v5 s (t # raw) w res5 g = history_loop_v5 s raw w res5 g)"
proof (intro conjI impI)
  from assms have inv: "vc_inv v" by (rule vc_reachable_inv)
  show "\<exists>vol pc side v' g'.
            VolumeCalculator_calc s bid ask v g = (Inr ((bid + ask) / 2, vol, pc, side), v', g') \<and>
            (side = ''buy'' \<or> side = ''sell'') \<and> vc_reachable v'"
  proof (cases "s \<in> dom (initialized v)")
    case False
    note e = calc_first [OF False, of bid ask g]
    note rv = vc_calc [OF assms e]
    show ?thesis by (intro exI conjI, rule e, simp, rule rv)
  next
    case True
    with inv obtain m0 b0 where l: "last_mid v s = Some m0" "last_bid v s = Some b0"
      by (rule vc_inv_lookup)
    note e = calc_later [OF True l, of bid ask g]
    note rv = vc_calc [OF assms e]
    show ?thesis by (intro exI conjI, rule e, simp, rule rv)
  qed
next
  show "\<exists>vol pc side w' g'.
            VC_calc s bid ask w g = (((bid + ask) / 2, vol, pc, side), w', g') \<and>
            (side = ''buy'' \<or> side = ''sell'')"
    by (intro exI conjI, rule VC_calc_eq) auto
next
  assume "parse_named t = Some (bid, ask, ts, tms) \<and> (bid \<le> 0 \<or> ask \<le> 0)"
  then show "history_loop s (t # raw) v res g = history_loop s raw v res g"
    by auto
next
  assume "parse_v5 t = Some (bid, ask, ts, tms) \<and> (bid \<le> 0 \<or> ask \<le> 0)"
  then show "history_loop_v5 s (t # raw) w res5 g = history_loop_v5 s raw w res5 g"
    by auto
qed


theorem calc_total_any_quote_witness:
  "vc_reachable vc_after_first \<and>
   (\<exists>vol pc side v' g'.
      VolumeCalculator_calc ''EURUSD'' 0 (- 1) vc_after_first (const_draws 0)
        = (Inr ((0 + - 1) / 2, vol, pc, side), v', g') \<and>
      (side = ''buy'' \<or> side = ''sell'') \<and> vc_reachable v') \<and>
   (\<exists>vol pc side w' g'.
      VC_calc ''EURUSD'' 0 (- 1) vc5_after_first (const_draws 0)
        = (((0 + - 1) / 2, vol, pc, side), w', g') \<and>
      (side = ''buy'' \<or> side = ''sell'')) \<and>
   parse_named \<lparr>f_bid = Some 0, f_ask = Some (- 1), f_time = Some 1, f_time_msc = None,
                p0 = None, p1 = None, p2 = None\<rparr> = Some (0, - 1, 1, 1000) \<and>
   history_loop ''EURUSD''
     [\<lparr>f_bid = Some 0, f_ask = Some (- 1), f_time = Some 1, f_time_msc = None,
       p0 = None, p1 = None, p2 = None\<rparr>] vc_after_first [] (const_draws 0)
     = ([], vc_after_first, const_draws 0) \<and>
   history_loop_v5 ''EURUSD''
     [\<lparr>f_bid = Some 0, f_ask = Some (- 1), f_time = Some 1, f_time_msc = None,
       p0 = None, p1 = None, p2 = None\<rparr>] vc5_after_first [] (const_draws 0)
     = ([], vc5_after_first, const_draws 0)"
proof -
  let ?t = "\<lparr>f_bid = Some 0, f_ask = Some (- 1), f_time = Some 1, f_time_msc = None,
             p0 = None, p1 = None, p2 = None\<rparr>"
  have p: "parse_named ?t = Some (0, - 1, 1, 1000)"
    by (simp add: parse_named_def)
  have p5: "parse_v5 ?t = Some (0, - 1, 1, 1000)"
    by (simp add: parse_v5_def parse_named_def)
  note t = calc_total_any_quote [OF vc_after_first_reachable,
      of "''EURUSD''" 0 "- 1" "const_draws 0" vc5_after_first ?t 1 1000 "[]" "[]" "[]"]
  from t [THEN conjunct2, THEN conjunct2, THEN conjunct1] p
  have a: "history_loop ''EURUSD'' [?t] vc_after_first [] (const_draws 0)
             = ([], vc_after_first, const_draws 0)"
    by simp
  from t [THEN conjunct2, THEN conjunct2, THEN conjunct2] p5
  have b: "history_loop_v5 ''EURUSD'' [?t] vc5_after_first [] (const_draws 0)
             = ([], vc5_after_first, const_draws 0)"
    by simp
  from vc_after_first_reachable t [THEN conjunct1] t [THEN conjunct2, THEN conjunct1] p a b
  show ?thesis by blast
qed

section \<open>Properties of the subscriber registry\<close>

subsection \<open>Broadcast\<close>



















subsection \<open>Subscribing and unsubscribing\<close>

lemma disconnect_connections:
  "connections (WebSocketManager_disconnect ws m) = remove1 ws (connections m)"
  by (simp add: WebSocketManager_disconnect_def remove1_idem)

lemma disc_conns: "conns (WM_disc ws m) = remove1 ws (conns m)"
  by (simp add: WM_disc_def remove1_idem)

lemma connect_socket:
  "WebSocketManager_connect (accept_socket peer_ok) socket_send L ws m st =
     (if st ws = CONNECTING \<and> peer_ok ws
      then (True, m\<lparr>connections := connections m @ [ws]\<rparr>, st(ws := CONNECTED))
      else (False, m, st))"
  by (simp add: WebSocketManager_connect_def accept_socket_def socket_send_def Let_def)

lemma conn_socket:
  "WM_conn (accept_socket peer_ok) ws m5 st =
     (if st ws = CONNECTING \<and> peer_ok ws
      then (True, m5\<lparr>conns := conns m5 @ [ws]\<rparr>, st(ws := CONNECTED))
      else (False, m5, st))"
  by (simp add: WM_conn_def accept_socket_def)

lemma registry_inv_append:
  "registry_inv cs st \<Longrightarrow> st ws = CONNECTING \<Longrightarrow> registry_inv (cs @ [ws]) (st(ws := CONNECTED))"
  by (auto simp: registry_inv_def)

lemma registry_inv_remove1: "registry_inv cs st \<Longrightarrow> registry_inv (remove1 ws cs) st"
  by (auto simp: registry_inv_def dest: notin_set_remove1)

lemma registry_inv_close: "registry_inv cs st \<Longrightarrow> registry_inv cs (st(ws := DISCONNECTED))"
  by (auto simp: registry_inv_def)

lemma registry_reachable_inv: "registry_reachable cs st \<Longrightarrow> registry_inv cs st"
proof (induction rule: registry_reachable.induct)
  case rr_new
  show ?case by (simp add: registry_inv_def)
next
  case (rr_connect m st peer_ok L ws r m' st')
  show ?case
  proof (cases "st ws = CONNECTING \<and> peer_ok ws")
    case True
    with rr_connect.hyps(2) have "connections m' = connections m @ [ws]" "st' = st(ws := CONNECTED)"
      by (auto simp: connect_socket)
    then show ?thesis using True rr_connect.IH registry_inv_append [of "connections m" st ws]
      by (simp only:)
  next
    case False
    with rr_connect.hyps(2) have "m' = m" "st' = st" by (auto simp: connect_socket)
    with rr_connect.IH show ?thesis by simp
  qed
next
  case (rr_conn m5 st peer_ok ws r m5' st')
  show ?case
  proof (cases "st ws = CONNECTING \<and> peer_ok ws")
    case True
    with rr_conn.hyps(2) have "conns m5' = conns m5 @ [ws]" "st' = st(ws := CONNECTED)"
      by (auto simp: conn_socket)
    then show ?thesis using True rr_conn.IH registry_inv_append [of "conns m5" st ws]
      by (simp only:)
  next
    case False
    with rr_conn.hyps(2) have "m5' = m5" "st' = st" by (auto simp: conn_socket)
    with rr_conn.IH show ?thesis by simp
  qed
next
  case (rr_disconnect m st ws)
  then show ?case by (simp add: disconnect_connections registry_inv_remove1)
next
  case (rr_disc m5 st ws)
  then show ?case by (simp add: disc_conns registry_inv_remove1)
next
  case (rr_close cs st ws)
  from rr_close.IH show ?case by (rule registry_inv_close)
qed

lemma sockets_one_reachable:
  "registry_reachable (connections (WebSocketManager_new\<lparr>connections := [1 :: nat]\<rparr>)) sockets_one"
  "registry_reachable (conns (WM_new\<lparr>conns := [1 :: nat]\<rparr>)) sockets_one"
proof -
  have r0: "registry_reachable (connections (WebSocketManager_new :: nat WebSocketManager)) sockets_new"
    using rr_new [where ?'h = nat] by (simp add: WebSocketManager_new_def sockets_new_def)
  have c: "WebSocketManager_connect (accept_socket (alive_except 0)) socket_send lib_online 1
             WebSocketManager_new sockets_new
           = (True, WebSocketManager_new\<lparr>connections := [1 :: nat]\<rparr>, sockets_one)"
    by (simp add: connect_socket sockets_new_def sockets_one_def alive_except_def
          WebSocketManager_new_def)
  show "registry_reachable (connections (WebSocketManager_new\<lparr>connections := [1 :: nat]\<rparr>)) sockets_one"
    by (rule rr_connect [OF r0 c])
  have r5: "registry_reachable (conns (WM_new :: nat WM)) sockets_new"
    using rr_new [where ?'h = nat] by (simp add: WM_new_def sockets_new_def)
  have c5: "WM_conn (accept_socket (alive_except 0)) 1 WM_new sockets_new
           = (True, WM_new\<lparr>conns := [1 :: nat]\<rparr>, sockets_one)"
    by (simp add: conn_socket sockets_new_def sockets_one_def alive_except_def WM_new_def)
  show "registry_reachable (conns (WM_new\<lparr>conns := [1 :: nat]\<rparr>)) sockets_one"
    by (rule rr_conn [OF r5 c5])
qed




text \<open>
  Claim C8. On every registry that the servers can reach, with the sockets
  behaving as the framework's do, no handle is listed twice. \<open>connect\<close> of a
  handle that is registered does not return (its \<^verbatim>\<open>accept()\<close> raises) and leaves
  the registry and the sockets as they were; a \<open>connect\<close> that returns appends a
  handle that was not registered, so the registry stays without duplicates.
  \<open>disconnect\<close> of a handle that is not registered changes nothing, and has no
  error result; \<open>disconnect\<close> removes the handle, and a second \<open>disconnect\<close> of
  the same handle changes nothing. The same holds for \<^verbatim>\<open>WM.conn\<close> and
  \<^verbatim>\<open>WM.disc\<close> of v5.1.
\<close>

theorem subscribe_unsubscribe_idempotent:
  assumes "registry_reachable (connections m) st" and "registry_reachable (conns m5) st5"
  shows
  "distinct (connections m) \<and>
   (ws \<in> set (connections m) \<longrightarrow>
      WebSocketManager_connect (accept_socket peer_ok) socket_send L ws m st = (False, m, st)) \<and>
   (fst (WebSocketManager_connect (accept_socket peer_ok) socket_send L ws m st) \<longrightarrow>
      ws \<notin> set (connections m) \<and>
      connections (fst (snd (WebSocketManager_connect (accept_socket peer_ok) socket_send L ws m st)))
        = connections m @ [ws]) \<and>
   distinct (connections (fst (snd
      (WebSocketManager_connect (accept_socket peer_ok) socket_send L ws m st)))) \<and>
   (ws \<notin> set (connections m) \<longrightarrow> WebSocketManager_disconnect ws m = m) \<and>
   connections (WebSocketManager_disconnect ws m) = remove1 ws (connections m) \<and>
   ws \<notin> set (connections (WebSocketManager_disconnect ws m)) \<and>
   WebSocketManager_disconnect ws (WebSocketManager_disconnect ws m)
     = WebSocketManager_disconnect ws m \<and>
   distinct (conns m5) \<and>
   (ws \<in> set (conns m5) \<longrightarrow> WM_conn (accept_socket peer_ok) ws m5 st5 = (False, m5, st5)) \<and>
   (fst (WM_conn (accept_socket peer_ok) ws m5 st5) \<longrightarrow>
      ws \<notin> set (conns m5) \<and>
      conns (fst (snd (WM_conn (accept_socket peer_ok) ws m5 st5))) = conns m5 @ [ws]) \<and>
   distinct (conns (fst (snd (WM_conn (accept_socket peer_ok) ws m5 st5)))) \<and>
   (ws \<notin> set (conns m5) \<longrightarrow> WM_disc ws m5 = m5) \<and>
   conns (WM_disc ws m5) = remove1 ws (conns m5) \<and>
   ws \<notin> set (conns (WM_disc ws m5)) \<and>
   WM_disc ws (WM_disc ws m5) = WM_disc ws m5"
proof -
  from assms(1) have i: "registry_inv (connections m) st" by (rule registry_reachable_inv)
  from assms(2) have j: "registry_inv (conns m5) st5" by (rule registry_reachable_inv)
  from i have d: "distinct (connections m)" and n: "ws \<in> set (connections m) \<Longrightarrow> st ws \<noteq> CONNECTING"
    by (auto simp: registry_inv_def)
  from j have d5: "distinct (conns m5)" and n5: "ws \<in> set (conns m5) \<Longrightarrow> st5 ws \<noteq> CONNECTING"
    by (auto simp: registry_inv_def)
  have a: "ws \<in> set (connections m) \<longrightarrow>
      WebSocketManager_connect (accept_socket peer_ok) socket_send L ws m st = (False, m, st)"
    using n by (simp add: connect_socket)
  have b: "fst (WebSocketManager_connect (accept_socket peer_ok) socket_send L ws m st) \<longrightarrow>
      ws \<notin> set (connections m) \<and>
      connections (fst (snd (WebSocketManager_connect (accept_socket peer_ok) socket_send L ws m st)))
        = connections m @ [ws]"
    using n by (auto simp: connect_socket)
  have c: "distinct (connections (fst (snd
      (WebSocketManager_connect (accept_socket peer_ok) socket_send L ws m st))))"
    using n d by (auto simp: connect_socket)
  have e: "ws \<notin> set (connections m) \<longrightarrow> WebSocketManager_disconnect ws m = m"
    by (simp add: WebSocketManager_disconnect_def)
  have f: "ws \<notin> set (connections (WebSocketManager_disconnect ws m))"
    using d by (simp add: disconnect_connections)
  then have g: "WebSocketManager_disconnect ws (WebSocketManager_disconnect ws m)
     = WebSocketManager_disconnect ws m"
    by (simp add: WebSocketManager_disconnect_def)
  have a5: "ws \<in> set (conns m5) \<longrightarrow> WM_conn (accept_socket peer_ok) ws m5 st5 = (False, m5, st5)"
    using n5 by (simp add: conn_socket)
  have b5: "fst (WM_conn (accept_socket peer_ok) ws m5 st5) \<longrightarrow>
      ws \<notin> set (conns m5) \<and>
      conns (fst (snd (WM_conn (accept_socket peer_ok) ws m5 st5))) = conns m5 @ [ws]"
    using n5 by (auto simp: conn_socket)
  have c5: "distinct (conns (fst (snd (WM_conn (accept_socket peer_ok) ws m5 st5))))"
    using n5 d5 by (auto simp: conn_socket)
  have e5: "ws \<notin> set (conns m5) \<longrightarrow> WM_disc ws m5 = m5"
    by (simp add: WM_disc_def)
  have f5: "ws \<notin> set (conns (WM_disc ws m5))"
    using d5 by (simp add: disc_conns)
  then have g5: "WM_disc ws (WM_disc ws m5) = WM_disc ws m5"
    by (simp add: WM_disc_def)
  from d a b c e f g d5 a5 b5 c5 e5 f5 g5 disconnect_connections [of ws m] disc_conns [of ws m5]
  show ?thesis by blast
qed

theorem subscribe_unsubscribe_idempotent_witness:
  "registry_reachable (connections (WebSocketManager_new\<lparr>connections := [1 :: nat]\<rparr>)) sockets_one \<and>
   registry_reachable (conns (WM_new\<lparr>conns := [1 :: nat]\<rparr>)) sockets_one \<and>
   (1 :: nat) \<in> set (connections (WebSocketManager_new\<lparr>connections := [1]\<rparr>)) \<and>
   (2 :: nat) \<notin> set (connections (WebSocketManager_new\<lparr>connections := [1]\<rparr>)) \<and>
   WebSocketManager_connect (accept_socket (alive_except 0)) socket_send lib_online (1 :: nat)
       (WebSocketManager_new\<lparr>connections := [1]\<rparr>) sockets_one
     = (False, WebSocketManager_new\<lparr>connections := [1]\<rparr>, sockets_one) \<and>
   fst (WebSocketManager_connect (accept_socket (alive_except 0)) socket_send lib_online (2 :: nat)
       (WebSocketManager_new\<lparr>connections := [1]\<rparr>) sockets_one) \<and>
   connections (fst (snd (WebSocketManager_connect (accept_socket (alive_except 0)) socket_send
       lib_online (2 :: nat) (WebSocketManager_new\<lparr>connections := [1]\<rparr>) sockets_one))) = [1, 2] \<and>
   WebSocketManager_disconnect (2 :: nat) (WebSocketManager_new\<lparr>connections := [1]\<rparr>)
     = WebSocketManager_new\<lparr>connections := [1]\<rparr> \<and>
   WebSocketManager_disconnect (1 :: nat)
       (WebSocketManager_disconnect 1 (WebSocketManager_new\<lparr>connections := [1]\<rparr>))
     = WebSocketManager_disconnect 1 (WebSocketManager_new\<lparr>connections := [1]\<rparr>) \<and>
   (1 :: nat) \<in> set (conns (WM_new\<lparr>conns := [1]\<rparr>)) \<and>
   (2 :: nat) \<notin> set (conns (WM_new\<lparr>conns := [1]\<rparr>)) \<and>
   WM_conn (accept_socket (alive_except 0)) (1 :: nat) (WM_new\<lparr>conns := [1]\<rparr>) sockets_one
     = (False, WM_new\<lparr>conns := [1]\<rparr>, sockets_one) \<and>
   fst (WM_conn (accept_socket (alive_except 0)) (2 :: nat) (WM_new\<lparr>conns := [1]\<rparr>) sockets_one) \<and>
   conns (fst (snd (WM_conn (accept_socket (alive_except 0)) (2 :: nat) (WM_new\<lparr>conns := [1]\<rparr>)
       sockets_one))) = [1, 2] \<and>
   WM_disc (2 :: nat) (WM_new\<lparr>conns := [1]\<rparr>) = WM_new\<lparr>conns := [1]\<rparr> \<and>
   WM_disc (1 :: nat) (WM_disc 1 (WM_new\<lparr>conns := [1]\<rparr>)) = WM_disc 1 (WM_new\<lparr>conns := [1]\<rparr>)"
proof -
  let ?M = "WebSocketManager_new\<lparr>connections := [1 :: nat]\<rparr>"
  let ?W = "WM_new\<lparr>conns := [1 :: nat]\<rparr>"
  let ?p = "alive_except 0"
  note r = sockets_one_reachable
  have h: "(1 :: nat) \<in> set (connections ?M)" "(2 :: nat) \<notin> set (connections ?M)"
    "(1 :: nat) \<in> set (conns ?W)" "(2 :: nat) \<notin> set (conns ?W)"
    by simp_all
  have f: "fst (WebSocketManager_connect (accept_socket ?p) socket_send lib_online (2 :: nat) ?M
             sockets_one)"
    "fst (WM_conn (accept_socket ?p) (2 :: nat) ?W sockets_one)"
    by (simp_all add: connect_socket conn_socket sockets_one_def sockets_new_def alive_except_def)
  note a = subscribe_unsubscribe_idempotent [OF r, of 1 ?p lib_online]
  note b = subscribe_unsubscribe_idempotent [OF r, of 2 ?p lib_online]
  from a h have a1: "WebSocketManager_connect (accept_socket ?p) socket_send lib_online (1 :: nat) ?M
                       sockets_one = (False, ?M, sockets_one)"
    and a2: "WebSocketManager_disconnect (1 :: nat) (WebSocketManager_disconnect 1 ?M)
               = WebSocketManager_disconnect 1 ?M"
    and a3: "WM_conn (accept_socket ?p) (1 :: nat) ?W sockets_one = (False, ?W, sockets_one)"
    and a4: "WM_disc (1 :: nat) (WM_disc 1 ?W) = WM_disc 1 ?W"
    by blast+
  from b f have "connections (fst (snd (WebSocketManager_connect (accept_socket ?p) socket_send
       lib_online (2 :: nat) ?M sockets_one))) = connections ?M @ [2]"
    and "conns (fst (snd (WM_conn (accept_socket ?p) (2 :: nat) ?W sockets_one))) = conns ?W @ [2]"
    by blast+
  then have b1: "connections (fst (snd (WebSocketManager_connect (accept_socket ?p) socket_send
       lib_online (2 :: nat) ?M sockets_one))) = [1, 2]"
    and b2: "conns (fst (snd (WM_conn (accept_socket ?p) (2 :: nat) ?W sockets_one))) = [1, 2]"
    by simp_all
  from b h have b3: "WebSocketManager_disconnect (2 :: nat) ?M = ?M"
    and b4: "WM_disc (2 :: nat) ?W = ?W"
    by blast+
  from r h f a1 a2 a3 a4 b1 b2 b3 b4 show ?thesis by blast
qed
section \<open>Properties of the stream mode\<close>

lemma init_result:
  "fst (MT5Connector_init L c) =
     (MT5_AVAILABLE L \<and>
      (initialize_login L = Returned True \<or>
       initialize_login L = Returned False \<and> last_error L = Returned () \<and>
       initialize_plain L = Returned True) \<and>
      account_info L \<noteq> Raised)"
  by (cases "initialize_login L"; cases "initialize_plain L"; cases "account_info L";
      cases "last_error L")
     (auto simp: MT5Connector_init_def Let_def)

lemma init5_result:
  "fst (MT5C_init L c) =
     (MT5_AVAILABLE L \<and> initialize_plain L = Returned True \<and> account_info L \<noteq> Raised)"
  by (cases "initialize_plain L"; cases "account_info L")
     (auto simp: MT5C_init_def Let_def)

lemma start_mt5_mode:
  "mode (snd (WebSocketManager_start_mt5 L s m))
     = (if fst (MT5Connector_init L (MT5Connector_new\<lparr>on_tick := True\<rparr>)) then ''mt5'' else ''simulation'')"
  "fst (WebSocketManager_start_mt5 L s m) = fst (MT5Connector_init L (MT5Connector_new\<lparr>on_tick := True\<rparr>))"
  by (simp_all add: WebSocketManager_start_mt5_def Let_def split: prod.splits)

lemma WM_start_mt5_mode:
  "wm_mode (snd (WM_start_mt5 L s m))
     = (if fst (MT5C_init L (MT5C_new\<lparr>c_on_tick := True\<rparr>)) then ''mt5'' else ''simulation'')"
  "fst (WM_start_mt5 L s m) = fst (MT5C_init L (MT5C_new\<lparr>c_on_tick := True\<rparr>))"
  by (simp_all add: WM_start_mt5_def Let_def split: prod.splits)

lemma switch_symbol_mode:
  "mode (snd (switch_symbol L s m))
     = (if mode m = ''mt5''
        then (if fst (MT5Connector_init L (MT5Connector_new\<lparr>on_tick := True\<rparr>)) then ''mt5'' else ''simulation'')
        else mode m)"
  "success (fst (switch_symbol L s m))
     = (if mode m = ''mt5'' then fst (MT5Connector_init L (MT5Connector_new\<lparr>on_tick := True\<rparr>)) else True)"
  "r_mode (fst (switch_symbol L s m))
     = (if mode m = ''mt5'' then mode (snd (switch_symbol L s m)) else ''simulation'')"
  by (simp_all add: switch_symbol_def Let_def case_prod_beta start_mt5_mode)

lemma switch_sym_mode:
  "wm_mode (snd (switch_sym L s m))
     = (if wm_mode m = ''mt5''
        then (if fst (MT5C_init L (MT5C_new\<lparr>c_on_tick := True\<rparr>)) then ''mt5'' else ''simulation'')
        else wm_mode m)"
  "success (fst (switch_sym L s m))
     = (if wm_mode m = ''mt5'' then fst (MT5C_init L (MT5C_new\<lparr>c_on_tick := True\<rparr>)) else True)"
  "r_mode (fst (switch_sym L s m))
     = (if wm_mode m = ''mt5'' then wm_mode (snd (switch_sym L s m)) else ''simulation'')"
  by (simp_all add: switch_sym_def Let_def case_prod_beta WM_start_mt5_mode)

lemma manager_reachable_mode:
  "manager_reachable m \<Longrightarrow> mode m = ''mt5'' \<or> mode m = ''simulation''"
proof (induction rule: manager_reachable.induct)
  case mr_new show ?case by (simp add: WebSocketManager_new_def)
next
  case (mr_start m L s) show ?case by (simp only: start_mt5_mode) simp
next
  case (mr_stop m) show ?case by (simp add: WebSocketManager_stop_mt5_def)
next
  case (mr_switch m L s)
  then show ?case by (auto simp: switch_symbol_mode)
next
  case (mr_other m cs v) then show ?case by simp
qed

lemma wm_reachable_mode:
  "wm_reachable m \<Longrightarrow> wm_mode m = ''mt5'' \<or> wm_mode m = ''simulation''"
proof (induction rule: wm_reachable.induct)
  case wr_new show ?case by (simp add: WM_new_def)
next
  case (wr_start m L s) show ?case by (simp only: WM_start_mt5_mode) simp
next
  case (wr_stop m) show ?case by (simp add: WM_stop_mt5_def)
next
  case (wr_switch m L s)
  then show ?case by (auto simp: switch_sym_mode)
next
  case (wr_other m cs v) then show ?case by simp
qed


text \<open>
  Claim C1. From every state the manager can reach, \<open>start_mt5\<close> and
  \<open>switch_symbol\<close> return with the mode \<open>mt5\<close> or \<open>simulation\<close> and nothing
  else. When the live connection attempt fails, that is when \<open>init\<close> gives
  \<^verbatim>\<open>False\<close> (library missing, \<^verbatim>\<open>initialize\<close> refused, or any exception inside
  \<open>init\<close>, which its handler turns into \<^verbatim>\<open>False\<close>), \<open>start_mt5\<close> returns
  \<^verbatim>\<open>False\<close> with the mode \<open>simulation\<close>, and \<open>switch_symbol\<close> called in
  mode \<open>mt5\<close> reports no success and leaves the mode \<open>simulation\<close>; neither
  has an error result. The same holds for \<^verbatim>\<open>WM.start_mt5\<close> and \<^verbatim>\<open>switch_sym\<close>
  of v5.1.
\<close>

theorem start_and_switch_leave_mode_defined:
  assumes "manager_reachable m" and "wm_reachable m5"
  shows
   "(mode (snd (WebSocketManager_start_mt5 L s m)) = ''mt5'' \<or>
     mode (snd (WebSocketManager_start_mt5 L s m)) = ''simulation'') \<and>
    (mode (snd (switch_symbol L s m)) = ''mt5'' \<or>
     mode (snd (switch_symbol L s m)) = ''simulation'') \<and>
    (\<not> fst (MT5Connector_init L (MT5Connector_new\<lparr>on_tick := True\<rparr>)) \<longrightarrow>
       fst (WebSocketManager_start_mt5 L s m) = False \<and>
       mode (snd (WebSocketManager_start_mt5 L s m)) = ''simulation'' \<and>
       (mode m = ''mt5'' \<longrightarrow>
          success (fst (switch_symbol L s m)) = False \<and>
          r_mode (fst (switch_symbol L s m)) = ''simulation'' \<and>
          mode (snd (switch_symbol L s m)) = ''simulation'')) \<and>
    fst (MT5Connector_init L c) =
      (MT5_AVAILABLE L \<and>
       (initialize_login L = Returned True \<or>
        initialize_login L = Returned False \<and> last_error L = Returned () \<and>
        initialize_plain L = Returned True) \<and>
       account_info L \<noteq> Raised) \<and>
    (wm_mode (snd (WM_start_mt5 L s m5)) = ''mt5'' \<or>
     wm_mode (snd (WM_start_mt5 L s m5)) = ''simulation'') \<and>
    (wm_mode (snd (switch_sym L s m5)) = ''mt5'' \<or>
     wm_mode (snd (switch_sym L s m5)) = ''simulation'') \<and>
    (\<not> fst (MT5C_init L (MT5C_new\<lparr>c_on_tick := True\<rparr>)) \<longrightarrow>
       fst (WM_start_mt5 L s m5) = False \<and>
       wm_mode (snd (WM_start_mt5 L s m5)) = ''simulation'' \<and>
       (wm_mode m5 = ''mt5'' \<longrightarrow>
          success (fst (switch_sym L s m5)) = False \<and>
          r_mode (fst (switch_sym L s m5)) = ''simulation'' \<and>
          wm_mode (snd (switch_sym L s m5)) = ''simulation'')) \<and>
    fst (MT5C_init L c5) =
      (MT5_AVAILABLE L \<and> initialize_plain L = Returned True \<and> account_info L \<noteq> Raised)"
proof (intro conjI impI)
  show "mode (snd (WebSocketManager_start_mt5 L s m)) = ''mt5'' \<or>
        mode (snd (WebSocketManager_start_mt5 L s m)) = ''simulation''"
    using manager_reachable_mode [OF mr_start [OF assms(1)]] .
  show "mode (snd (switch_symbol L s m)) = ''mt5'' \<or> mode (snd (switch_symbol L s m)) = ''simulation''"
    using manager_reachable_mode [OF mr_switch [OF assms(1)]] .
  show "wm_mode (snd (WM_start_mt5 L s m5)) = ''mt5'' \<or>
        wm_mode (snd (WM_start_mt5 L s m5)) = ''simulation''"
    using wm_reachable_mode [OF wr_start [OF assms(2)]] .
  show "wm_mode (snd (switch_sym L s m5)) = ''mt5'' \<or> wm_mode (snd (switch_sym L s m5)) = ''simulation''"
    using wm_reachable_mode [OF wr_switch [OF assms(2)]] .
  show "fst (MT5Connector_init L c) =
      (MT5_AVAILABLE L \<and>
       (initialize_login L = Returned True \<or>
        initialize_login L = Returned False \<and> last_error L = Returned () \<and>
        initialize_plain L = Returned True) \<and>
       account_info L \<noteq> Raised)"
    by (rule init_result)
  show "fst (MT5C_init L c5) =
      (MT5_AVAILABLE L \<and> initialize_plain L = Returned True \<and> account_info L \<noteq> Raised)"
    by (rule init5_result)
next
  assume f: "\<not> fst (MT5Connector_init L (MT5Connector_new\<lparr>on_tick := True\<rparr>))"
  then show "fst (WebSocketManager_start_mt5 L s m) = False"
    and "mode (snd (WebSocketManager_start_mt5 L s m)) = ''simulation''"
    by (simp_all add: start_mt5_mode)
  assume l: "mode m = ''mt5''"
  from f l show "success (fst (switch_symbol L s m)) = False"
    and "mode (snd (switch_symbol L s m)) = ''simulation''"
    and "r_mode (fst (switch_symbol L s m)) = ''simulation''"
    by (simp_all add: switch_symbol_mode)
next
  assume f: "\<not> fst (MT5C_init L (MT5C_new\<lparr>c_on_tick := True\<rparr>))"
  then show "fst (WM_start_mt5 L s m5) = False"
    and "wm_mode (snd (WM_start_mt5 L s m5)) = ''simulation''"
    by (simp_all add: WM_start_mt5_mode)
  assume l: "wm_mode m5 = ''mt5''"
  from f l show "success (fst (switch_sym L s m5)) = False"
    and "wm_mode (snd (switch_sym L s m5)) = ''simulation''"
    and "r_mode (fst (switch_sym L s m5)) = ''simulation''"
    by (simp_all add: switch_sym_mode)
qed


lemma lib_failing_init:
  "\<not> fst (MT5Connector_init lib_failing (MT5Connector_new\<lparr>on_tick := True\<rparr>))"
  "\<not> fst (MT5C_init lib_failing (MT5C_new\<lparr>c_on_tick := True\<rparr>))"
  by (simp_all add: init_result init5_result lib_failing_def lib_online_def)

lemma lib_online_init:
  "fst (MT5Connector_init lib_online (MT5Connector_new\<lparr>on_tick := True\<rparr>))"
  "fst (MT5C_init lib_online (MT5C_new\<lparr>c_on_tick := True\<rparr>))"
  by (simp_all add: init_result init5_result lib_online_def)

lemma live_managers:
  "manager_reachable manager_live" "mode manager_live = ''mt5''"
  "wm_reachable wm_live" "wm_mode wm_live = ''mt5''"
  unfolding manager_live_def wm_live_def
  by (rule mr_start [OF mr_new], simp add: start_mt5_mode lib_online_init,
      rule wr_start [OF wr_new], simp add: WM_start_mt5_mode lib_online_init)

theorem start_and_switch_leave_mode_defined_witness:
  "manager_reachable manager_live \<and> wm_reachable wm_live \<and>
   mode manager_live = ''mt5'' \<and> wm_mode wm_live = ''mt5'' \<and>
   \<not> fst (MT5Connector_init lib_failing (MT5Connector_new\<lparr>on_tick := True\<rparr>)) \<and>
   \<not> fst (MT5C_init lib_failing (MT5C_new\<lparr>c_on_tick := True\<rparr>)) \<and>
   fst (WebSocketManager_start_mt5 lib_failing ''XAUUSD'' manager_live) = False \<and>
   mode (snd (WebSocketManager_start_mt5 lib_failing ''XAUUSD'' manager_live)) = ''simulation'' \<and>
   success (fst (switch_symbol lib_failing ''XAUUSD'' manager_live)) = False \<and>
   mode (snd (switch_symbol lib_failing ''XAUUSD'' manager_live)) = ''simulation'' \<and>
   fst (WM_start_mt5 lib_failing ''XAUUSD'' wm_live) = False \<and>
   wm_mode (snd (WM_start_mt5 lib_failing ''XAUUSD'' wm_live)) = ''simulation'' \<and>
   success (fst (switch_sym lib_failing ''XAUUSD'' wm_live)) = False \<and>
   wm_mode (snd (switch_sym lib_failing ''XAUUSD'' wm_live)) = ''simulation''"
  using start_and_switch_leave_mode_defined [OF live_managers(1) live_managers(3),
      of lib_failing "''XAUUSD''" MT5Connector_new MT5C_new]
    live_managers lib_failing_init
  by blast

section \<open>Properties of the history conversion\<close>

lemma calc_ok:
  assumes "vc_inv v"
  obtains mid vol pc side v' g' where
    "VolumeCalculator_calc s bid ask v g = (Inr (mid, vol, pc, side), v', g')" "vc_inv v'"
proof (cases "s \<in> dom (initialized v)")
  case False
  note e = calc_first [OF False, of bid ask g]
  from that [OF e vc_inv_calc [OF assms e]] show ?thesis .
next
  case True
  with assms obtain m0 b0 where l: "last_mid v s = Some m0" "last_bid v s = Some b0"
    by (rule vc_inv_lookup)
  note e = calc_later [OF True l, of bid ask g]
  from that [OF e vc_inv_calc [OF assms e]] show ?thesis .
qed

lemma history_loop_skips:
  "history_loop s raw v res g = history_loop s (filter valid_record raw) v res g"
proof (induction raw arbitrary: v res g)
  case Nil show ?case by simp
next
  case (Cons t raw)
  show ?case
  proof (cases "valid_record t")
    case False
    then have "history_loop s (t # raw) v res g = history_loop s raw v res g"
      by (auto simp: valid_record_def split: option.splits)
    with False Cons.IH show ?thesis by simp
  next
    case True
    then obtain bid ask ts tms where p: "parse_named t = Some (bid, ask, ts, tms)" "bid > 0" "ask > 0"
      by (auto simp: valid_record_def split: option.splits)
    obtain r v' g' where c: "VolumeCalculator_calc s bid ask v g = (r, v', g')"
      by (metis prod.exhaust)
    show ?thesis
    proof (cases r)
      case (Inl e)
      with True p c Cons.IH show ?thesis by simp
    next
      case (Inr q)
      obtain mid vol pc side where "q = (mid, vol, pc, side)" by (metis prod.exhaust)
      with Inr True p c Cons.IH show ?thesis by simp
    qed
  qed
qed

lemma history_loop_v5_skips:
  "history_loop_v5 s raw v res g = history_loop_v5 s (filter valid_record_v5 raw) v res g"
proof (induction raw arbitrary: v res g)
  case Nil show ?case by simp
next
  case (Cons t raw)
  show ?case
  proof (cases "valid_record_v5 t")
    case False
    then have "history_loop_v5 s (t # raw) v res g = history_loop_v5 s raw v res g"
      by (auto simp: valid_record_v5_def split: option.splits)
    with False Cons.IH show ?thesis by simp
  next
    case True
    then obtain bid ask ts tms where p: "parse_v5 t = Some (bid, ask, ts, tms)" "bid > 0" "ask > 0"
      by (auto simp: valid_record_v5_def split: option.splits)
    obtain mid vol pc side v' g' where
      c: "VC_calc s bid ask v g = ((mid, vol, pc, side), v', g')"
      by (metis prod.exhaust)
    with True p Cons.IH show ?thesis by simp
  qed
qed

lemma history_loop_stamps:
  "vc_inv v \<Longrightarrow>
   map t_timestamp (fst (history_loop s raw v res g))
     = map t_timestamp res @ map stamp_of (filter valid_record raw)"
proof (induction raw arbitrary: v res g)
  case Nil show ?case by simp
next
  case (Cons t raw)
  show ?case
  proof (cases "valid_record t")
    case False
    then have "history_loop s (t # raw) v res g = history_loop s raw v res g"
      by (auto simp: valid_record_def split: option.splits)
    with False Cons.IH [OF Cons.prems] show ?thesis by simp
  next
    case True
    then obtain bid ask ts tms where p: "parse_named t = Some (bid, ask, ts, tms)" "bid > 0" "ask > 0"
      by (auto simp: valid_record_def split: option.splits)
    from Cons.prems obtain mid vol pc side v' g' where
      c: "VolumeCalculator_calc s bid ask v g = (Inr (mid, vol, pc, side), v', g')" and i: "vc_inv v'"
      by (rule calc_ok)
    from p have st: "stamp_of t = tms" by (simp add: stamp_of_def)
    from True p c st Cons.IH [OF i] show ?thesis by simp
  qed
qed

lemma history_loop_v5_stamps:
  "map t_timestamp (fst (history_loop_v5 s raw v res g))
     = map t_timestamp res @ map stamp_of_v5 (filter valid_record_v5 raw)"
proof (induction raw arbitrary: v res g)
  case Nil show ?case by simp
next
  case (Cons t raw)
  show ?case
  proof (cases "valid_record_v5 t")
    case False
    then have "history_loop_v5 s (t # raw) v res g = history_loop_v5 s raw v res g"
      by (auto simp: valid_record_v5_def split: option.splits)
    with False Cons.IH show ?thesis by simp
  next
    case True
    then obtain bid ask ts tms where p: "parse_v5 t = Some (bid, ask, ts, tms)" "bid > 0" "ask > 0"
      by (auto simp: valid_record_v5_def split: option.splits)
    obtain mid vol pc side v' g' where
      c: "VC_calc s bid ask v g = ((mid, vol, pc, side), v', g')"
      by (metis prod.exhaust)
    from p have st: "stamp_of_v5 t = tms" by (simp add: stamp_of_v5_def)
    from True p c st Cons.IH show ?thesis by simp
  qed
qed

lemma history_loop_length:
  "length (fst (history_loop s raw VolumeCalculator_init [] g)) = length (filter valid_record raw)"
  using history_loop_stamps [OF vc_inv_init, of s raw "[]" g, THEN arg_cong, of length] by simp

lemma history_loop_v5_length:
  "length (fst (history_loop_v5 s raw VC_init [] g)) = length (filter valid_record_v5 raw)"
  using history_loop_v5_stamps [of s raw VC_init "[]" g, THEN arg_cong, of length] by simp

lemma window_start_ok:
  assumes "1 / 10 \<le> hours" "hours \<le> 24" "0 \<le> now" "now < 253402300800"
  shows "window_start now hours = Inr (now - hours * 3600)"
  using assms by (simp add: window_start_def timedelta_hours_def datetime_sub_def Let_def)


lemma get_history_eq:
  assumes "window_start (utc_now L) hours = Inr u"
  shows "MT5Connector_get_history L s hours c g =
     (if \<not> connected c \<or> \<not> MT5_AVAILABLE L \<or> \<not> symbol_select L s then (Inr [], c, g)
      else case fetch_raw L s u (utc_now L) of
             Raised \<Rightarrow> (Inr [], c, g)
           | Returned None \<Rightarrow> (Inr [], c, g)
           | Returned (Some raw) \<Rightarrow>
               (Inr (fst (history_loop s raw VolumeCalculator_init [] g)), c,
                snd (snd (history_loop s raw VolumeCalculator_init [] g))))"
  by (simp add: MT5Connector_get_history_def assms Let_def case_prod_beta
           split: outcome.splits option.splits)

lemma MT5C_get_history_eq:
  assumes "window_start (utc_now L) hours = Inr u"
  shows "MT5C_get_history L s hours c g =
     (if \<not> c_connected c \<or> \<not> MT5_AVAILABLE L \<or> \<not> symbol_select L s then (Inr [], c, g)
      else case fetch_raw L s u (utc_now L) of
             Raised \<Rightarrow> (Inr [], c, g)
           | Returned None \<Rightarrow> (Inr [], c, g)
           | Returned (Some raw) \<Rightarrow>
               (Inr (fst (history_loop_v5 s raw VC_init [] g)), c,
                snd (snd (history_loop_v5 s raw VC_init [] g))))"
  by (simp add: MT5C_get_history_def assms Let_def case_prod_beta
           split: outcome.splits option.splits)

lemma history_loop_replay:
  "fst (history_loop s raw v res g) = res @ spec_replay s (map quote_of (filter valid_record raw)) v g"
proof (induction raw arbitrary: v res g)
  case Nil show ?case by simp
next
  case (Cons t raw)
  show ?case
  proof (cases "valid_record t")
    case False
    then have "history_loop s (t # raw) v res g = history_loop s raw v res g"
      by (auto simp: valid_record_def split: option.splits)
    with False Cons.IH show ?thesis by simp
  next
    case True
    then obtain bid ask ts tms where p: "parse_named t = Some (bid, ask, ts, tms)" "bid > 0" "ask > 0"
      by (auto simp: valid_record_def split: option.splits)
    from p have q: "quote_of t = (bid, ask, tms)" by (simp add: quote_of_def)
    obtain r v' g' where c: "VolumeCalculator_calc s bid ask v g = (r, v', g')"
      by (metis prod.exhaust)
    show ?thesis
    proof (cases r)
      case (Inl e)
      with True p q c Cons.IH show ?thesis by simp
    next
      case (Inr x)
      obtain mid vol pc side where "x = (mid, vol, pc, side)" by (metis prod.exhaust)
      with Inr True p q c Cons.IH show ?thesis by simp
    qed
  qed
qed

lemma history_loop_v5_replay:
  "fst (history_loop_v5 s raw v res g)
     = res @ spec_replay_v5 s (map quote_of_v5 (filter valid_record_v5 raw)) v g"
proof (induction raw arbitrary: v res g)
  case Nil show ?case by simp
next
  case (Cons t raw)
  show ?case
  proof (cases "valid_record_v5 t")
    case False
    then have "history_loop_v5 s (t # raw) v res g = history_loop_v5 s raw v res g"
      by (auto simp: valid_record_v5_def split: option.splits)
    with False Cons.IH show ?thesis by simp
  next
    case True
    then obtain bid ask ts tms where p: "parse_v5 t = Some (bid, ask, ts, tms)" "bid > 0" "ask > 0"
      by (auto simp: valid_record_v5_def split: option.splits)
    from p have q: "quote_of_v5 t = (bid, ask, tms)" by (simp add: quote_of_v5_def)
    obtain mid vol pc side v' g' where
      c: "VC_calc s bid ask v g = ((mid, vol, pc, side), v', g')"
      by (metis prod.exhaust)
    with True p q Cons.IH show ?thesis by simp
  qed
qed

lemma spec_convert_first:
  assumes "filter valid_record raw = t # rest" and "parse_named t = Some (bid, ask, ts, tms)"
  shows "hd (spec_convert s raw g) =
     \<lparr>t_symbol = s,
      t_price = py_round ((bid + ask) / 2) (dig (gcfg_v6 s)),
      t_bid = py_round bid (dig (gcfg_v6 s)),
      t_ask = py_round ask (dig (gcfg_v6 s)),
      t_volume_synthetic = py_round (bv (gcfg_v6 s) * (8 / 10 + g 0 * (4 / 10))) 2,
      t_side = (if g 1 > 5 / 10 then ''buy'' else ''sell''),
      t_timestamp = tms,
      t_source = ''mt5_history''\<rparr>"
proof -
  from assms(2) have q: "quote_of t = (bid, ask, tms)" by (simp add: quote_of_def)
  have "s \<notin> dom (initialized VolumeCalculator_init)" by (simp add: VolumeCalculator_init_def)
  note c = calc_first [OF this, of bid ask g]
  show ?thesis by (simp add: spec_convert_def assms(1) q c)
qed

lemma spec_convert_v5_first:
  assumes "filter valid_record_v5 raw = t # rest" and "parse_v5 t = Some (bid, ask, ts, tms)"
  shows "hd (spec_convert_v5 s raw g) =
     \<lparr>t_symbol = s,
      t_price = py_round ((bid + ask) / 2) (dig (gcfg s)),
      t_bid = py_round bid (dig (gcfg s)),
      t_ask = py_round ask (dig (gcfg s)),
      t_volume_synthetic = py_round (max (bv (gcfg s) * (7 / 10 + g 0 * (6 / 10))) (bv (gcfg s))) 2,
      t_side = (if g 1 > 5 / 10 then ''buy'' else ''sell''),
      t_timestamp = tms,
      t_source = ''mt5_history'',
      t_price_change = py_round 0 (dig (gcfg s)),
      t_spread = py_round (ask - bid) (dig (gcfg s))\<rparr>"
proof -
  from assms(2) have q: "quote_of_v5 t = (bid, ask, tms)" by (simp add: quote_of_v5_def)
  show ?thesis by (simp add: spec_convert_v5_def assms(1) q VC_calc_eq VC_init_def)
qed


text \<open>
  Claim C6. \<open>hours\<close> is what the \<^verbatim>\<open>/history\<close> route passes, a number between 0.1
  and 24 (the bounds of \<^verbatim>\<open>Query(ge=0.1, le=24)\<close>; the window start is computed
  before the \<^verbatim>\<open>try\<close>), and the clock is not before 1970. Then \<open>get_history\<close>
  never raises and leaves the connector as it was; its result does not depend
  on the connector's own synthesizer. When the library returns a batch, the
  result is what the specification describes: the valid records, in arrival
  order, replayed through a synthesizer that starts fresh, one tick for each. A
  record with a field that cannot be read or with a bid or ask that is not
  positive is skipped and the rest is still processed, so the result has one
  tick for each valid record, with the timestamps of the valid records in their
  order; the first tick is the one a fresh synthesizer gives for the first valid
  record (in v6.1 the warm-up volume and a coin-flip side), whatever the live
  synthesizer has seen. When a query raises, the result is the empty list. The
  same holds for v5.1, where a record also counts as readable when its fields
  can be read by position.
\<close>

theorem get_history_replays_valid_records:
  assumes "1 / 10 \<le> hours" and "hours \<le> 24"
      and "0 \<le> utc_now L" and "utc_now L < 253402300800"
  shows
   "(\<exists>res g'. MT5Connector_get_history L s hours c g = (Inr res, c, g')) \<and>
    fst (MT5Connector_get_history L s hours (c\<lparr>vc := v\<rparr>) g)
      = fst (MT5Connector_get_history L s hours c g) \<and>
    (connected c \<and> MT5_AVAILABLE L \<and> symbol_select L s \<and>
     fetch_raw L s (utc_now L - hours * 3600) (utc_now L) = Returned (Some raw) \<longrightarrow>
       fst (MT5Connector_get_history L s hours c g)
         = Inr (fst (history_loop s raw VolumeCalculator_init [] g))) \<and>
    (fetch_raw L s (utc_now L - hours * 3600) (utc_now L) = Raised \<longrightarrow>
       fst (MT5Connector_get_history L s hours c g) = Inr []) \<and>
    fst (history_loop s raw VolumeCalculator_init [] g) = spec_convert s raw g \<and>
    history_loop s raw VolumeCalculator_init [] g
      = history_loop s (filter valid_record raw) VolumeCalculator_init [] g \<and>
    length (fst (history_loop s raw VolumeCalculator_init [] g)) = length (filter valid_record raw) \<and>
    map t_timestamp (fst (history_loop s raw VolumeCalculator_init [] g))
      = map stamp_of (filter valid_record raw) \<and>
    (filter valid_record raw = t # rest \<and> parse_named t = Some (bid, ask, ts, tms) \<longrightarrow>
       hd (fst (history_loop s raw VolumeCalculator_init [] g)) =
         \<lparr>t_symbol = s,
          t_price = py_round ((bid + ask) / 2) (dig (gcfg_v6 s)),
          t_bid = py_round bid (dig (gcfg_v6 s)),
          t_ask = py_round ask (dig (gcfg_v6 s)),
          t_volume_synthetic = py_round (bv (gcfg_v6 s) * (8 / 10 + g 0 * (4 / 10))) 2,
          t_side = (if g 1 > 5 / 10 then ''buy'' else ''sell''),
          t_timestamp = tms,
          t_source = ''mt5_history''\<rparr>) \<and>
    (\<exists>res g'. MT5C_get_history L s hours c5 g = (Inr res, c5, g')) \<and>
    fst (MT5C_get_history L s hours (c5\<lparr>c_vc := v5\<rparr>) g) = fst (MT5C_get_history L s hours c5 g) \<and>
    (c_connected c5 \<and> MT5_AVAILABLE L \<and> symbol_select L s \<and>
     fetch_raw L s (utc_now L - hours * 3600) (utc_now L) = Returned (Some raw) \<longrightarrow>
       fst (MT5C_get_history L s hours c5 g) = Inr (fst (history_loop_v5 s raw VC_init [] g))) \<and>
    (fetch_raw L s (utc_now L - hours * 3600) (utc_now L) = Raised \<longrightarrow>
       fst (MT5C_get_history L s hours c5 g) = Inr []) \<and>
    fst (history_loop_v5 s raw VC_init [] g) = spec_convert_v5 s raw g \<and>
    history_loop_v5 s raw VC_init [] g = history_loop_v5 s (filter valid_record_v5 raw) VC_init [] g \<and>
    length (fst (history_loop_v5 s raw VC_init [] g)) = length (filter valid_record_v5 raw) \<and>
    map t_timestamp (fst (history_loop_v5 s raw VC_init [] g))
      = map stamp_of_v5 (filter valid_record_v5 raw) \<and>
    (filter valid_record_v5 raw = t5 # rest5 \<and> parse_v5 t5 = Some (bid5, ask5, ts5, tms5) \<longrightarrow>
       hd (fst (history_loop_v5 s raw VC_init [] g)) =
         \<lparr>t_symbol = s,
          t_price = py_round ((bid5 + ask5) / 2) (dig (gcfg s)),
          t_bid = py_round bid5 (dig (gcfg s)),
          t_ask = py_round ask5 (dig (gcfg s)),
          t_volume_synthetic
            = py_round (max (bv (gcfg s) * (7 / 10 + g 0 * (6 / 10))) (bv (gcfg s))) 2,
          t_side = (if g 1 > 5 / 10 then ''buy'' else ''sell''),
          t_timestamp = tms5,
          t_source = ''mt5_history'',
          t_price_change = py_round 0 (dig (gcfg s)),
          t_spread = py_round (ask5 - bid5) (dig (gcfg s))\<rparr>)"
proof -
  note w = window_start_ok [OF assms]
  note e = get_history_eq [OF w]
  note e5 = MT5C_get_history_eq [OF w]
  have a1: "\<exists>res g'. MT5Connector_get_history L s hours c g = (Inr res, c, g')"
    unfolding e by (simp split: outcome.splits option.splits)
  have a2: "fst (MT5Connector_get_history L s hours (c\<lparr>vc := v\<rparr>) g)
      = fst (MT5Connector_get_history L s hours c g)"
    unfolding e by (simp split: outcome.splits option.splits)
  have a3: "connected c \<and> MT5_AVAILABLE L \<and> symbol_select L s \<and>
     fetch_raw L s (utc_now L - hours * 3600) (utc_now L) = Returned (Some raw) \<longrightarrow>
       fst (MT5Connector_get_history L s hours c g)
         = Inr (fst (history_loop s raw VolumeCalculator_init [] g))"
    unfolding e by simp
  have a4: "fetch_raw L s (utc_now L - hours * 3600) (utc_now L) = Raised \<longrightarrow>
       fst (MT5Connector_get_history L s hours c g) = Inr []"
    unfolding e by simp
  have a5: "fst (history_loop s raw VolumeCalculator_init [] g) = spec_convert s raw g"
    by (simp add: history_loop_replay spec_convert_def)
  have a6: "history_loop s raw VolumeCalculator_init [] g
      = history_loop s (filter valid_record raw) VolumeCalculator_init [] g"
    by (rule history_loop_skips)
  have a7: "length (fst (history_loop s raw VolumeCalculator_init [] g)) = length (filter valid_record raw)"
    by (rule history_loop_length)
  have a8: "map t_timestamp (fst (history_loop s raw VolumeCalculator_init [] g))
      = map stamp_of (filter valid_record raw)"
    using history_loop_stamps [OF vc_inv_init, of s raw "[]" g] by simp
  have a9: "filter valid_record raw = t # rest \<and> parse_named t = Some (bid, ask, ts, tms) \<longrightarrow>
       hd (fst (history_loop s raw VolumeCalculator_init [] g)) =
         \<lparr>t_symbol = s,
          t_price = py_round ((bid + ask) / 2) (dig (gcfg_v6 s)),
          t_bid = py_round bid (dig (gcfg_v6 s)),
          t_ask = py_round ask (dig (gcfg_v6 s)),
          t_volume_synthetic = py_round (bv (gcfg_v6 s) * (8 / 10 + g 0 * (4 / 10))) 2,
          t_side = (if g 1 > 5 / 10 then ''buy'' else ''sell''),
          t_timestamp = tms,
          t_source = ''mt5_history''\<rparr>"
    unfolding a5 using spec_convert_first [of raw t rest bid ask ts tms s g] by blast
  have b1: "\<exists>res g'. MT5C_get_history L s hours c5 g = (Inr res, c5, g')"
    unfolding e5 by (simp split: outcome.splits option.splits)
  have b2: "fst (MT5C_get_history L s hours (c5\<lparr>c_vc := v5\<rparr>) g) = fst (MT5C_get_history L s hours c5 g)"
    unfolding e5 by (simp split: outcome.splits option.splits)
  have b3: "c_connected c5 \<and> MT5_AVAILABLE L \<and> symbol_select L s \<and>
     fetch_raw L s (utc_now L - hours * 3600) (utc_now L) = Returned (Some raw) \<longrightarrow>
       fst (MT5C_get_history L s hours c5 g) = Inr (fst (history_loop_v5 s raw VC_init [] g))"
    unfolding e5 by simp
  have b4: "fetch_raw L s (utc_now L - hours * 3600) (utc_now L) = Raised \<longrightarrow>
       fst (MT5C_get_history L s hours c5 g) = Inr []"
    unfolding e5 by simp
  have b5: "fst (history_loop_v5 s raw VC_init [] g) = spec_convert_v5 s raw g"
    by (simp add: history_loop_v5_replay spec_convert_v5_def)
  have b6: "history_loop_v5 s raw VC_init [] g = history_loop_v5 s (filter valid_record_v5 raw) VC_init [] g"
    by (rule history_loop_v5_skips)
  have b7: "length (fst (history_loop_v5 s raw VC_init [] g)) = length (filter valid_record_v5 raw)"
    by (rule history_loop_v5_length)
  have b8: "map t_timestamp (fst (history_loop_v5 s raw VC_init [] g))
      = map stamp_of_v5 (filter valid_record_v5 raw)"
    using history_loop_v5_stamps [of s raw VC_init "[]" g] by simp
  have b9: "filter valid_record_v5 raw = t5 # rest5 \<and> parse_v5 t5 = Some (bid5, ask5, ts5, tms5) \<longrightarrow>
       hd (fst (history_loop_v5 s raw VC_init [] g)) =
         \<lparr>t_symbol = s,
          t_price = py_round ((bid5 + ask5) / 2) (dig (gcfg s)),
          t_bid = py_round bid5 (dig (gcfg s)),
          t_ask = py_round ask5 (dig (gcfg s)),
          t_volume_synthetic
            = py_round (max (bv (gcfg s) * (7 / 10 + g 0 * (6 / 10))) (bv (gcfg s))) 2,
          t_side = (if g 1 > 5 / 10 then ''buy'' else ''sell''),
          t_timestamp = tms5,
          t_source = ''mt5_history'',
          t_price_change = py_round 0 (dig (gcfg s)),
          t_spread = py_round (ask5 - bid5) (dig (gcfg s))\<rparr>"
    unfolding b5 using spec_convert_v5_first [of raw t5 rest5 bid5 ask5 ts5 tms5 s g] by blast
  from a1 a2 a3 a4 a5 a6 a7 a8 a9 b1 b2 b3 b4 b5 b6 b7 b8 b9 show ?thesis by blast
qed

lemma raw_batch_valid:
  "length (filter valid_record raw_batch) = 2"
  "map stamp_of (filter valid_record raw_batch) = [1000, 3000]"
  "length (filter valid_record_v5 raw_batch) = 2"
  "map stamp_of_v5 (filter valid_record_v5 raw_batch) = [1000, 3000]"
  by (simp_all add: raw_batch_def valid_record_def valid_record_v5_def stamp_of_def stamp_of_v5_def
        parse_v5_def parse_named_def parse_positional_def)

lemma lib_history_fetch:
  "fetch_raw lib_history ''EURUSD'' (utc_now lib_history - 1 * 3600) (utc_now lib_history)
     = Returned (Some raw_batch)"
  by (simp add: fetch_raw_def lib_history_def lib_online_def raw_batch_def)

lemma raw_batch_quotes:
  "map quote_of (filter valid_record raw_batch)
     = [(10850 / 10000, 10852 / 10000, 1000), (10855 / 10000, 10857 / 10000, 3000)]"
  "map quote_of_v5 (filter valid_record_v5 raw_batch)
     = [(10850 / 10000, 10852 / 10000, 1000), (10855 / 10000, 10857 / 10000, 3000)]"
  by (simp_all add: raw_batch_def valid_record_def valid_record_v5_def quote_of_def quote_of_v5_def
        parse_v5_def parse_named_def parse_positional_def)

lemma spec_convert_raw_batch:
  "spec_convert ''EURUSD'' raw_batch (const_draws 0) =
     [\<lparr>t_symbol = ''EURUSD'', t_price = 10851 / 10000, t_bid = 10850 / 10000, t_ask = 10852 / 10000,
       t_volume_synthetic = 4, t_side = ''sell'', t_timestamp = 1000, t_source = ''mt5_history''\<rparr>,
      \<lparr>t_symbol = ''EURUSD'', t_price = 10856 / 10000, t_bid = 10855 / 10000, t_ask = 10857 / 10000,
       t_volume_synthetic = 385 / 10, t_side = ''buy'', t_timestamp = 3000, t_source = ''mt5_history''\<rparr>]"
proof -
  have c1: "VolumeCalculator_calc ''EURUSD'' (10850 / 10000) (10852 / 10000) VolumeCalculator_init
              (const_draws 0)
            = (Inr (10851 / 10000, 4, 0, ''sell''), vc_after_first, const_draws 0)"
    by (simp only: vc_after_first_eq) (simp add: const_draws_def)
  have i: "''EURUSD'' \<in> dom (initialized vc_after_first)"
    and m: "last_mid vc_after_first ''EURUSD'' = Some (10851 / 10000)"
    and b: "last_bid vc_after_first ''EURUSD'' = Some (10850 / 10000)"
    by (simp_all add: vc_after_first_def)
  have c2: "fst (VolumeCalculator_calc ''EURUSD'' (10855 / 10000) (10857 / 10000) vc_after_first
              (const_draws 0))
            = Inr (10856 / 10000, 385 / 10, 5 / 10000, ''buy'')"
    by (simp only: calc_later [OF i m b] fst_conv)
       (simp add: const_draws_def gcfg_v6_def SYM_CFG_v6_def upper_def upper_char_def)
  obtain v2 g2 where c2': "VolumeCalculator_calc ''EURUSD'' (10855 / 10000) (10857 / 10000)
       vc_after_first (const_draws 0) = (Inr (10856 / 10000, 385 / 10, 5 / 10000, ''buy''), v2, g2)"
    using c2 by (metis fst_conv prod.exhaust)
  have d: "dig (gcfg_v6 ''EURUSD'') = 5"
    by (simp add: gcfg_v6_def SYM_CFG_v6_def upper_def upper_char_def)
  have r: "py_round (10851 / 10000) 5 = 10851 / 10000" "py_round (10850 / 10000) 5 = 10850 / 10000"
    "py_round (10852 / 10000) 5 = 10852 / 10000" "py_round (10856 / 10000) 5 = 10856 / 10000"
    "py_round (10855 / 10000) 5 = 10855 / 10000" "py_round (10857 / 10000) 5 = 10857 / 10000"
    "py_round 4 2 = 4" "py_round (385 / 10) 2 = 385 / 10"
    by (simp_all add: py_round_def Let_def)
  show ?thesis
    unfolding spec_convert_def raw_batch_quotes
    by (simp only: spec_replay.simps c1 c2' d r prod.case sum.case)
qed

lemma spec_convert_v5_raw_batch:
  "spec_convert_v5 ''EURUSD'' raw_batch (const_draws 0) =
     [\<lparr>t_symbol = ''EURUSD'', t_price = 10851 / 10000, t_bid = 10850 / 10000, t_ask = 10852 / 10000,
       t_volume_synthetic = 5, t_side = ''sell'', t_timestamp = 1000, t_source = ''mt5_history'',
       t_price_change = 0, t_spread = 2 / 10000\<rparr>,
      \<lparr>t_symbol = ''EURUSD'', t_price = 10856 / 10000, t_bid = 10855 / 10000, t_ask = 10857 / 10000,
       t_volume_synthetic = 385 / 10, t_side = ''buy'', t_timestamp = 3000, t_source = ''mt5_history'',
       t_price_change = 5 / 10000, t_spread = 2 / 10000\<rparr>]"
proof -
  have c1: "VC_calc ''EURUSD'' (10850 / 10000) (10852 / 10000) VC_init (const_draws 0)
            = ((10851 / 10000, 5, 0, ''sell''), vc5_after_first, const_draws 0)"
    by (simp only: VC_calc_eq)
       (simp add: VC_init_def vc5_after_first_def const_draws_def gcfg_def SYM_CFG_def upper_def
          upper_char_def)
  have c2: "fst (VC_calc ''EURUSD'' (10855 / 10000) (10857 / 10000) vc5_after_first (const_draws 0))
            = (10856 / 10000, 385 / 10, 5 / 10000, ''buy'')"
    by (simp only: VC_calc_eq fst_conv)
       (simp add: vc5_after_first_def const_draws_def gcfg_def SYM_CFG_def upper_def upper_char_def)
  obtain v2 g2 where c2': "VC_calc ''EURUSD'' (10855 / 10000) (10857 / 10000) vc5_after_first
       (const_draws 0) = ((10856 / 10000, 385 / 10, 5 / 10000, ''buy''), v2, g2)"
    using c2 by (metis fst_conv prod.exhaust)
  have d: "dig (gcfg ''EURUSD'') = 5"
    by (simp add: gcfg_def SYM_CFG_def upper_def upper_char_def)
  have r: "py_round (10851 / 10000) 5 = 10851 / 10000" "py_round (10850 / 10000) 5 = 10850 / 10000"
    "py_round (10852 / 10000) 5 = 10852 / 10000" "py_round (10856 / 10000) 5 = 10856 / 10000"
    "py_round (10855 / 10000) 5 = 10855 / 10000" "py_round (10857 / 10000) 5 = 10857 / 10000"
    "py_round 5 2 = 5" "py_round (385 / 10) 2 = 385 / 10" "py_round 0 5 = 0"
    "py_round (5 / 10000) 5 = 5 / 10000"
    "py_round (10852 / 10000 - 10850 / 10000) 5 = 2 / 10000"
    "py_round (10857 / 10000 - 10855 / 10000) 5 = 2 / 10000"
    by (simp_all add: py_round_def Let_def)
  show ?thesis
    unfolding spec_convert_v5_def raw_batch_quotes
    by (simp only: spec_replay_v5.simps c1 c2' d r prod.case)
qed

theorem get_history_replays_valid_records_witness:
  "1 / 10 \<le> (1 :: real) \<and> (1 :: real) \<le> 24 \<and>
   0 \<le> utc_now lib_history \<and> utc_now lib_history < 253402300800 \<and>
   connected (MT5Connector_new\<lparr>connected := True\<rparr>) \<and>
   c_connected (MT5C_new\<lparr>c_connected := True\<rparr>) \<and>
   MT5_AVAILABLE lib_history \<and> symbol_select lib_history ''EURUSD'' \<and>
   fetch_raw lib_history ''EURUSD'' (utc_now lib_history - 1 * 3600) (utc_now lib_history)
     = Returned (Some raw_batch) \<and>
   fst (MT5Connector_get_history lib_history ''EURUSD'' 1 (MT5Connector_new\<lparr>connected := True\<rparr>)
          (const_draws 0))
     = Inr [\<lparr>t_symbol = ''EURUSD'', t_price = 10851 / 10000, t_bid = 10850 / 10000,
             t_ask = 10852 / 10000, t_volume_synthetic = 4, t_side = ''sell'', t_timestamp = 1000,
             t_source = ''mt5_history''\<rparr>,
            \<lparr>t_symbol = ''EURUSD'', t_price = 10856 / 10000, t_bid = 10855 / 10000,
             t_ask = 10857 / 10000, t_volume_synthetic = 385 / 10, t_side = ''buy'',
             t_timestamp = 3000, t_source = ''mt5_history''\<rparr>] \<and>
   length (fst (history_loop ''EURUSD'' raw_batch VolumeCalculator_init [] (const_draws 0))) = 2 \<and>
   map t_timestamp (fst (history_loop ''EURUSD'' raw_batch VolumeCalculator_init [] (const_draws 0)))
     = [1000, 3000] \<and>
   fst (MT5C_get_history lib_history ''EURUSD'' 1 (MT5C_new\<lparr>c_connected := True\<rparr>) (const_draws 0))
     = Inr [\<lparr>t_symbol = ''EURUSD'', t_price = 10851 / 10000, t_bid = 10850 / 10000,
             t_ask = 10852 / 10000, t_volume_synthetic = 5, t_side = ''sell'', t_timestamp = 1000,
             t_source = ''mt5_history'', t_price_change = 0, t_spread = 2 / 10000\<rparr>,
            \<lparr>t_symbol = ''EURUSD'', t_price = 10856 / 10000, t_bid = 10855 / 10000,
             t_ask = 10857 / 10000, t_volume_synthetic = 385 / 10, t_side = ''buy'',
             t_timestamp = 3000, t_source = ''mt5_history'', t_price_change = 5 / 10000,
             t_spread = 2 / 10000\<rparr>] \<and>
   length (fst (history_loop_v5 ''EURUSD'' raw_batch VC_init [] (const_draws 0))) = 2 \<and>
   map t_timestamp (fst (history_loop_v5 ''EURUSD'' raw_batch VC_init [] (const_draws 0)))
     = [1000, 3000]"
proof -
  let ?c = "MT5Connector_new\<lparr>connected := True\<rparr>"
  let ?c5 = "MT5C_new\<lparr>c_connected := True\<rparr>"
  let ?g = "const_draws 0"
  have h: "1 / 10 \<le> (1 :: real)" "(1 :: real) \<le> 24"
    "0 \<le> utc_now lib_history" "utc_now lib_history < 253402300800"
    by (simp_all add: lib_history_def lib_online_def)
  have k: "connected ?c" "c_connected ?c5"
    "MT5_AVAILABLE lib_history" "symbol_select lib_history ''EURUSD''"
    by (simp_all add: lib_history_def lib_online_def)
  note t = get_history_replays_valid_records [OF h, where s = "''EURUSD''" and c = ?c and g = ?g
      and v = vc_after_first and raw = raw_batch and ?c5.0 = ?c5 and ?v5.0 = vc5_after_first]
  from t k lib_history_fetch
  have a: "fst (MT5Connector_get_history lib_history ''EURUSD'' 1 ?c ?g)
     = Inr (fst (history_loop ''EURUSD'' raw_batch VolumeCalculator_init [] ?g))"
    and b: "fst (MT5C_get_history lib_history ''EURUSD'' 1 ?c5 ?g)
     = Inr (fst (history_loop_v5 ''EURUSD'' raw_batch VC_init [] ?g))"
    by blast+
  from t have s: "fst (history_loop ''EURUSD'' raw_batch VolumeCalculator_init [] ?g)
                    = spec_convert ''EURUSD'' raw_batch ?g"
    and s5: "fst (history_loop_v5 ''EURUSD'' raw_batch VC_init [] ?g)
                    = spec_convert_v5 ''EURUSD'' raw_batch ?g"
    by blast+
  from t have c: "length (fst (history_loop ''EURUSD'' raw_batch VolumeCalculator_init [] ?g))
                    = length (filter valid_record raw_batch)"
    and d: "map t_timestamp (fst (history_loop ''EURUSD'' raw_batch VolumeCalculator_init [] ?g))
              = map stamp_of (filter valid_record raw_batch)"
    and c5: "length (fst (history_loop_v5 ''EURUSD'' raw_batch VC_init [] ?g))
                    = length (filter valid_record_v5 raw_batch)"
    and d5: "map t_timestamp (fst (history_loop_v5 ''EURUSD'' raw_batch VC_init [] ?g))
              = map stamp_of_v5 (filter valid_record_v5 raw_batch)"
    by blast+
  note a' = a [unfolded s spec_convert_raw_batch]
  note b' = b [unfolded s5 spec_convert_v5_raw_batch]
  from h k lib_history_fetch a' b' c d c5 d5 show ?thesis
    unfolding raw_batch_valid by blast
qed
end
